theory Spec2Isabelle
  imports Main "HOL-Library.Word" "HOL-Library.AList"
begin

section \<open>Python values\<close>

text \<open>
  The deployment script \<^verbatim>\<open>src/deploy.py\<close> builds Python dictionaries, serialises some of
  them with \<^verbatim>\<open>json.dumps\<close>, and hands them to a network client. The values it handles are
  modelled by \<open>pyval\<close>:
  \<^item> a \<^verbatim>\<open>str\<close> inside a metadata document is a \<open>ustring\<close>, the list of its code points
    (every code point below 1114112, surrogates included, as in Python);
  \<^item> the other strings of the script (addresses, the fields of a token, JSON and hexadecimal
    text) are \<open>string\<close>s, each \<open>char\<close> standing for the code point of the same number
    (code points below 256; \<^verbatim>\<open>str.encode()\<close> maps those from 128 on to two bytes);
  \<^item> an \<^verbatim>\<open>int\<close> is an \<open>int\<close>, a \<^verbatim>\<open>bytes\<close> object a list of 8-bit words;
  \<^item> a \<^verbatim>\<open>dict\<close> is an association list in insertion order (keys of a metadata document
    are strings);
  \<^item> \<open>PyObject c\<close> is an instance of any class \<open>c\<close> that \<^verbatim>\<open>json\<close> has no encoding for
    (a set, a contract handle, ...).
  Floating-point numbers are outside this fragment.
\<close>

type_synonym byte = "8 word"

type_synonym ustring = "nat list"

text \<open>A string literal of the script as a list of code points.\<close>

definition ustr :: "string \<Rightarrow> ustring" where
  "ustr s = map of_char s"

datatype error =
    TypeError
  | AttributeError
  | CompilationError
  | StorageEncodeError
  | OriginationError

datatype pyval =
    PyNone
  | PyBool bool
  | PyInt int
  | PyStr ustring
  | PyList "pyval list"
  | PyTuple "pyval list"
  | PyDict "(ustring \<times> pyval) list"
  | PyBytes "byte list"
  | PyObject string

text \<open>\<^verbatim>\<open>dict(pairs)\<close>: a later pair with a key already present replaces the value and keeps
  the key's place; a new key goes to the end.\<close>

definition py_dict :: "('k \<times> 'v) list \<Rightarrow> ('k \<times> 'v) list" where
  "py_dict ps = foldl (\<lambda>d (k, v). AList.update k v d) [] ps"

subsection \<open>\<^verbatim>\<open>str.encode()\<close>, \<^verbatim>\<open>bytes.hex()\<close>, \<^verbatim>\<open>str(int)\<close>\<close>

definition utf8_char :: "char \<Rightarrow> byte list" where
  "utf8_char c = (let n = (of_char c :: nat) in
     if n < 128 then [of_nat n] else [of_nat (192 + n div 64), of_nat (128 + n mod 64)])"

definition str_encode :: "string \<Rightarrow> byte list" where
  "str_encode s = concat (map utf8_char s)"

definition hexdigit :: "nat \<Rightarrow> char" where
  "hexdigit n = ''0123456789abcdef'' ! n"

definition hex_byte :: "byte \<Rightarrow> string" where
  "hex_byte b = [hexdigit (unat b div 16), hexdigit (unat b mod 16)]"

definition bytes_hex :: "byte list \<Rightarrow> string" where
  "bytes_hex bs = concat (map hex_byte bs)"

fun digits :: "nat \<Rightarrow> string" where
  "digits n = (if n < 10 then [char_of (48 + n)]
               else digits (n div 10) @ [char_of (48 + n mod 10)])"

declare digits.simps [simp del]

definition int_repr :: "int \<Rightarrow> string" where
  "int_repr i = (if i < 0 then CHR ''-'' # digits (nat (- i)) else digits (nat i))"

subsection \<open>\<^verbatim>\<open>json.dumps(content, indent=2)\<close>\<close>

text \<open>
  The standard encoder with \<^verbatim>\<open>ensure_ascii\<close> on: inside a string, a backslash, a double
  quote and every character outside the range space to tilde are escaped (a code point from
  65536 on as the two escapes of its surrogate pair); everything else is copied. With
  \<^verbatim>\<open>indent=2\<close> the items of a non-empty list or dictionary stand on lines of their own,
  two spaces deeper than the enclosing bracket, separated by a comma; a key and its value
  are separated by a colon and a space. Dictionary items are written in insertion order. An object of any other type raises \<^verbatim>\<open>TypeError\<close>.
\<close>

definition hex4 :: "nat \<Rightarrow> string" where
  "hex4 n = [hexdigit (n div 4096 mod 16), hexdigit (n div 256 mod 16),
             hexdigit (n div 16 mod 16), hexdigit (n mod 16)]"

definition escape_char :: "nat \<Rightarrow> string" where
  "escape_char n =
     (if n = 92 then [CHR 0x5C, CHR 0x5C]
      else if n = 34 then [CHR 0x5C, CHR 0x22]
      else if n = 8 then [CHR 0x5C, CHR ''b'']
      else if n = 12 then [CHR 0x5C, CHR ''f'']
      else if n = 10 then [CHR 0x5C, CHR ''n'']
      else if n = 13 then [CHR 0x5C, CHR ''r'']
      else if n = 9 then [CHR 0x5C, CHR ''t'']
      else if 32 \<le> n \<and> n \<le> 126 then [char_of n]
      else if n < 65536 then CHR 0x5C # CHR ''u'' # hex4 n
      else (let v = n - 65536
            in CHR 0x5C # CHR ''u'' # hex4 (55296 + v div 1024 mod 1024) @
               CHR 0x5C # CHR ''u'' # hex4 (56320 + v mod 1024)))"

definition encode_basestring_ascii :: "ustring \<Rightarrow> string" where
  "encode_basestring_ascii s = CHR 0x22 # concat (map escape_char s) @ [CHR 0x22]"

definition newline_indent :: "nat \<Rightarrow> string" where
  "newline_indent lvl = CHR 0x0A # replicate (2 * lvl) CHR '' ''"

fun iterencode :: "nat \<Rightarrow> pyval \<Rightarrow> error + string"
  and iterencode_list :: "nat \<Rightarrow> pyval list \<Rightarrow> error + string"
  and iterencode_dict :: "nat \<Rightarrow> (ustring \<times> pyval) list \<Rightarrow> error + string"
where
  "iterencode lvl PyNone = Inr ''null''"
| "iterencode lvl (PyBool b) = Inr (if b then ''true'' else ''false'')"
| "iterencode lvl (PyInt i) = Inr (int_repr i)"
| "iterencode lvl (PyStr s) = Inr (encode_basestring_ascii s)"
| "iterencode lvl (PyList xs) =
     (if xs = [] then Inr ''[]''
      else case iterencode_list (Suc lvl) xs of
             Inl e \<Rightarrow> Inl e
           | Inr s \<Rightarrow> Inr (''['' @ newline_indent (Suc lvl) @ s @ newline_indent lvl @ '']''))"
| "iterencode lvl (PyTuple xs) =
     (if xs = [] then Inr ''[]''
      else case iterencode_list (Suc lvl) xs of
             Inl e \<Rightarrow> Inl e
           | Inr s \<Rightarrow> Inr (''['' @ newline_indent (Suc lvl) @ s @ newline_indent lvl @ '']''))"
| "iterencode lvl (PyDict kvs) =
     (if kvs = [] then Inr ''{}''
      else case iterencode_dict (Suc lvl) kvs of
             Inl e \<Rightarrow> Inl e
           | Inr s \<Rightarrow> Inr (''{'' @ newline_indent (Suc lvl) @ s @ newline_indent lvl @ ''}''))"
| "iterencode lvl (PyBytes bs) = Inl TypeError"
| "iterencode lvl (PyObject c) = Inl TypeError"
| "iterencode_list lvl [] = Inr []"
| "iterencode_list lvl (x # xs) =
     (case iterencode lvl x of
        Inl e \<Rightarrow> Inl e
      | Inr s \<Rightarrow>
          (if xs = [] then Inr s
           else (case iterencode_list lvl xs of
                   Inl e \<Rightarrow> Inl e
                 | Inr t \<Rightarrow> Inr (s @ '','' @ newline_indent lvl @ t))))"
| "iterencode_dict lvl [] = Inr []"
| "iterencode_dict lvl ((k, v) # kvs) =
     (case iterencode lvl v of
        Inl e \<Rightarrow> Inl e
      | Inr s \<Rightarrow>
          (if kvs = [] then Inr (encode_basestring_ascii k @ '': '' @ s)
           else (case iterencode_dict lvl kvs of
                   Inl e \<Rightarrow> Inl e
                 | Inr t \<Rightarrow> Inr (encode_basestring_ascii k @ '': '' @ s @ '','' @
                                 newline_indent lvl @ t))))"

definition json_dumps :: "pyval \<Rightarrow> error + string" where
  "json_dumps obj = iterencode 0 obj"

text \<open>The leaves of a document: everything that is not a list, a tuple or a dictionary.
  A leaf is JSON-representable when it is text, a number, a boolean or \<^verbatim>\<open>None\<close>.\<close>

fun leaves :: "pyval \<Rightarrow> pyval list"
  and leaves_list :: "pyval list \<Rightarrow> pyval list"
  and leaves_dict :: "(ustring \<times> pyval) list \<Rightarrow> pyval list"
where
  "leaves (PyList xs) = leaves_list xs"
| "leaves (PyTuple xs) = leaves_list xs"
| "leaves (PyDict kvs) = leaves_dict kvs"
| "leaves PyNone = [PyNone]"
| "leaves (PyBool b) = [PyBool b]"
| "leaves (PyInt i) = [PyInt i]"
| "leaves (PyStr s) = [PyStr s]"
| "leaves (PyBytes bs) = [PyBytes bs]"
| "leaves (PyObject c) = [PyObject c]"
| "leaves_list [] = []"
| "leaves_list (x # xs) = leaves x @ leaves_list xs"
| "leaves_dict [] = []"
| "leaves_dict ((k, v) # kvs) = leaves v @ leaves_dict kvs"

fun json_leaf :: "pyval \<Rightarrow> bool" where
  "json_leaf PyNone = True"
| "json_leaf (PyBool b) = True"
| "json_leaf (PyInt i) = True"
| "json_leaf (PyStr s) = True"
| "json_leaf v = False"

definition json_serializable :: "pyval \<Rightarrow> bool" where
  "json_serializable d = list_all json_leaf (leaves d)"

section \<open>The metadata encoder\<close>

text \<open>\<^verbatim>\<open>_metadata_encode(content)\<close> of \<^verbatim>\<open>src/deploy.py\<close> (an Isabelle name cannot start with
  an underscore).\<close>

definition metadata_encode :: "pyval \<Rightarrow> error + (string \<times> string) list" where
  "metadata_encode content =
     (case json_dumps content of
        Inl e \<Rightarrow> Inl e
      | Inr s \<Rightarrow>
          let meta_content = bytes_hex (str_encode s);
              meta_uri = bytes_hex (str_encode ''tezos-storage:content'')
          in Inr (py_dict [('''', meta_uri), (''content'', meta_content)]))"

section \<open>Reading a metadata entry back\<close>

text \<open>
  The inverse direction, as a reader of the on-chain metadata performs it with the same
  standard library: \<^verbatim>\<open>bytes.fromhex\<close>, \<^verbatim>\<open>bytes.decode()\<close> and \<^verbatim>\<open>json.loads\<close>. A result
  \<open>None\<close> stands for an exception, or for input outside the modelled fragment: a
  floating-point number, or text that is not a \<open>string\<close> (the encoder writes ASCII only).
\<close>

definition hexval :: "char \<Rightarrow> nat option" where
  "hexval c = (let n = (of_char c :: nat) in
     if 48 \<le> n \<and> n \<le> 57 then Some (n - 48)
     else if 97 \<le> n \<and> n \<le> 102 then Some (n - 87)
     else if 65 \<le> n \<and> n \<le> 70 then Some (n - 55)
     else None)"

definition is_ascii_space :: "char \<Rightarrow> bool" where
  "is_ascii_space c = (c = CHR '' '' \<or> c = CHR 0x09 \<or> c = CHR 0x0A \<or> c = CHR 0x0B
                       \<or> c = CHR 0x0C \<or> c = CHR 0x0D)"

fun bytes_fromhex :: "string \<Rightarrow> byte list option" where
  "bytes_fromhex [] = Some []"
| "bytes_fromhex [c] = (if is_ascii_space c then Some [] else None)"
| "bytes_fromhex (c # d # r) =
     (if is_ascii_space c then bytes_fromhex (d # r)
      else (case (hexval c, hexval d) of
              (Some h, Some l) \<Rightarrow>
                (case bytes_fromhex r of
                   None \<Rightarrow> None
                 | Some bs \<Rightarrow> Some (of_nat (16 * h + l) # bs))
            | _ \<Rightarrow> None))"

fun bytes_decode :: "byte list \<Rightarrow> string option" where
  "bytes_decode [] = Some []"
| "bytes_decode [b] = (if unat b < 128 then Some [char_of (unat b)] else None)"
| "bytes_decode (b # b2 # bs) =
     (if unat b < 128 then
        (case bytes_decode (b2 # bs) of
           None \<Rightarrow> None
         | Some s \<Rightarrow> Some (char_of (unat b) # s))
      else if (b = 194 \<or> b = 195) \<and> 128 \<le> unat b2 \<and> unat b2 < 192 then
        (case bytes_decode bs of
           None \<Rightarrow> None
         | Some s \<Rightarrow> Some (char_of ((unat b - 192) * 64 + (unat b2 - 128)) # s))
      else None)"

definition is_ws :: "char \<Rightarrow> bool" where
  "is_ws c = (c = CHR '' '' \<or> c = CHR 0x09 \<or> c = CHR 0x0A \<or> c = CHR 0x0D)"

definition skip_ws :: "string \<Rightarrow> string" where
  "skip_ws s = dropWhile is_ws s"

definition is_digit :: "char \<Rightarrow> bool" where
  "is_digit c = (48 \<le> (of_char c :: nat) \<and> (of_char c :: nat) \<le> 57)"

definition nat_of_digits :: "string \<Rightarrow> nat" where
  "nat_of_digits ds = foldl (\<lambda>a c. 10 * a + ((of_char c :: nat) - 48)) 0 ds"

text \<open>The number pattern of the decoder: an optional minus sign, then either a single
  zero or a non-zero digit followed by digits. A fraction or an exponent after it makes
  the number a float.\<close>

definition frac_or_exp :: "string \<Rightarrow> bool" where
  "frac_or_exp s =
     (case s of
        c # d # r \<Rightarrow>
          (c = CHR ''.'' \<and> is_digit d)
          \<or> ((c = CHR ''e'' \<or> c = CHR ''E'')
              \<and> (is_digit d
                  \<or> ((d = CHR ''+'' \<or> d = CHR ''-'') \<and> (case r of [] \<Rightarrow> False | x # _ \<Rightarrow> is_digit x))))
      | _ \<Rightarrow> False)"

definition match_number :: "string \<Rightarrow> (pyval \<times> string) option" where
  "match_number s =
     (let neg = (case s of [] \<Rightarrow> False | c # _ \<Rightarrow> c = CHR ''-'');
          t = (if neg then tl s else s)
      in case t of
           [] \<Rightarrow> None
         | c # r \<Rightarrow>
             if \<not> is_digit c then None
             else
               let ds = (if c = CHR ''0'' then [c] else c # takeWhile is_digit r);
                   rest = drop (length ds) t
               in if frac_or_exp rest then None
                  else Some (PyInt ((if neg then - 1 else 1) * int (nat_of_digits ds)), rest))"

definition backslash :: "char \<Rightarrow> char option" where
  "backslash e =
     (if e = CHR 0x22 then Some (CHR 0x22)
      else if e = CHR 0x5C then Some (CHR 0x5C)
      else if e = CHR ''/'' then Some (CHR ''/'')
      else if e = CHR ''b'' then Some (CHR 0x08)
      else if e = CHR ''f'' then Some (CHR 0x0C)
      else if e = CHR ''n'' then Some (CHR 0x0A)
      else if e = CHR ''r'' then Some (CHR 0x0D)
      else if e = CHR ''t'' then Some (CHR 0x09)
      else None)"

definition decode_uXXXX :: "string \<Rightarrow> nat option" where
  "decode_uXXXX s =
     (case s of
        a # b # c # d # _ \<Rightarrow>
          (case (hexval a, hexval b, hexval c, hexval d) of
             (Some h3, Some h2, Some h1, Some h0) \<Rightarrow> Some (((h3 * 16 + h2) * 16 + h1) * 16 + h0)
           | _ \<Rightarrow> None)
      | _ \<Rightarrow> None)"

definition high_surrogate :: "nat \<Rightarrow> bool" where
  "high_surrogate n = (55296 \<le> n \<and> n \<le> 56319)"

definition low_surrogate :: "nat \<Rightarrow> bool" where
  "low_surrogate n = (56320 \<le> n \<and> n \<le> 57343)"

text \<open>
  \<open>scanstring\<close> reads a string literal from just after its opening quote. A
  \<^verbatim>\<open>\uXXXX\<close> escape of a high surrogate that is directly followed by the escape of a low
  surrogate is read, with it, as the one code point the pair stands for.
\<close>

function scanstring :: "string \<Rightarrow> (ustring \<times> string) option" where
  "scanstring [] = None"
| "scanstring (c # r) =
     (if c = CHR 0x22 then Some ([], r)
      else if c = CHR 0x5C then
        (case r of
           [] \<Rightarrow> None
         | e # r' \<Rightarrow>
             (if e = CHR ''u'' then
                (case decode_uXXXX r' of
                   None \<Rightarrow> None
                 | Some uni \<Rightarrow>
                     (if high_surrogate uni \<and> take 2 (drop 4 r') = [CHR 0x5C, CHR ''u''] then
                        (case decode_uXXXX (drop 6 r') of
                           None \<Rightarrow> None
                         | Some uni2 \<Rightarrow>
                             (if low_surrogate uni2 then
                                (case scanstring (drop 10 r') of
                                   None \<Rightarrow> None
                                 | Some (t, r'') \<Rightarrow>
                                     Some ((65536 + ((uni - 55296) * 1024 + (uni2 - 56320))) # t,
                                           r''))
                              else
                                (case scanstring (drop 4 r') of
                                   None \<Rightarrow> None
                                 | Some (t, r'') \<Rightarrow> Some (uni # t, r''))))
                      else
                        (case scanstring (drop 4 r') of
                           None \<Rightarrow> None
                         | Some (t, r'') \<Rightarrow> Some (uni # t, r''))))
              else
                (case backslash e of
                   None \<Rightarrow> None
                 | Some ch \<Rightarrow>
                     (case scanstring r' of
                        None \<Rightarrow> None
                      | Some (t, r'') \<Rightarrow> Some (of_char ch # t, r'')))))
      else if (of_char c :: nat) < 32 then None
      else (case scanstring r of
              None \<Rightarrow> None
            | Some (t, r') \<Rightarrow> Some (of_char c # t, r')))"
  by pat_completeness auto
termination
  by (relation "measure length") auto

text \<open>
  The scanner of the decoder. The first argument bounds the number of nested calls;
  \<open>json_loads\<close> starts it with the length of the text (enough for every text the encoder
  writes, as \<open>json_loads_dumps\<close> shows). \<open>parse_array\<close> starts at the first character of
  an element, \<open>parse_object\<close> just after the opening quote of a key.
\<close>

fun scan_once :: "nat \<Rightarrow> string \<Rightarrow> (pyval \<times> string) option"
  and parse_array :: "nat \<Rightarrow> string \<Rightarrow> (pyval list \<times> string) option"
  and parse_object :: "nat \<Rightarrow> string \<Rightarrow> ((ustring \<times> pyval) list \<times> string) option"
where
  "scan_once 0 s = None"
| "scan_once (Suc f) s =
     (case s of
        [] \<Rightarrow> None
      | c # r \<Rightarrow>
          (if c = CHR 0x22 then
             (case scanstring r of
                None \<Rightarrow> None
              | Some (t, r') \<Rightarrow> Some (PyStr t, r'))
           else if c = CHR ''{'' then
             (case skip_ws r of
                [] \<Rightarrow> None
              | d # r' \<Rightarrow>
                  (if d = CHR ''}'' then Some (PyDict [], r')
                   else if d = CHR 0x22 then
                     (case parse_object f r' of
                        None \<Rightarrow> None
                      | Some (pairs, r'') \<Rightarrow> Some (PyDict (py_dict pairs), r''))
                   else None))
           else if c = CHR ''['' then
             (case skip_ws r of
                [] \<Rightarrow> None
              | d # r' \<Rightarrow>
                  (if d = CHR '']'' then Some (PyList [], r')
                   else
                     (case parse_array f (d # r') of
                        None \<Rightarrow> None
                      | Some (vs, r'') \<Rightarrow> Some (PyList vs, r''))))
           else if take 4 s = ''null'' then Some (PyNone, drop 4 s)
           else if take 4 s = ''true'' then Some (PyBool True, drop 4 s)
           else if take 5 s = ''false'' then Some (PyBool False, drop 5 s)
           else match_number s))"
| "parse_array 0 s = None"
| "parse_array (Suc f) s =
     (case scan_once f s of
        None \<Rightarrow> None
      | Some (v, r) \<Rightarrow>
          (case skip_ws r of
             [] \<Rightarrow> None
           | c # r' \<Rightarrow>
               (if c = CHR '']'' then Some ([v], r')
                else if c = CHR '','' then
                  (case parse_array f (skip_ws r') of
                     None \<Rightarrow> None
                   | Some (vs, r'') \<Rightarrow> Some (v # vs, r''))
                else None)))"
| "parse_object 0 s = None"
| "parse_object (Suc f) s =
     (case scanstring s of
        None \<Rightarrow> None
      | Some (key, r) \<Rightarrow>
          (case skip_ws r of
             [] \<Rightarrow> None
           | c # r1 \<Rightarrow>
               (if c \<noteq> CHR '':'' then None
                else
                  (case scan_once f (skip_ws r1) of
                     None \<Rightarrow> None
                   | Some (v, r2) \<Rightarrow>
                       (case skip_ws r2 of
                          [] \<Rightarrow> None
                        | d # r3 \<Rightarrow>
                            (if d = CHR ''}'' then Some ([(key, v)], r3)
                             else if d = CHR '','' then
                               (case skip_ws r3 of
                                  [] \<Rightarrow> None
                                | q # r4 \<Rightarrow>
                                    (if q = CHR 0x22 then
                                       (case parse_object f r4 of
                                          None \<Rightarrow> None
                                        | Some (ps, r5) \<Rightarrow> Some ((key, v) # ps, r5))
                                     else None))
                             else None))))))"

definition json_loads :: "string \<Rightarrow> pyval option" where
  "json_loads s =
     (case scan_once (length s) (skip_ws s) of
        None \<Rightarrow> None
      | Some (v, r) \<Rightarrow> if skip_ws r = [] then Some v else None)"

definition metadata_decode :: "(string \<times> string) list \<Rightarrow> pyval option" where
  "metadata_decode m =
     (case map_of m ''content'' of
        None \<Rightarrow> None
      | Some h \<Rightarrow>
          (case bytes_fromhex h of
             None \<Rightarrow> None
           | Some bs \<Rightarrow>
               (case bytes_decode bs of
                  None \<Rightarrow> None
                | Some s \<Rightarrow> json_loads s)))"






section \<open>Storage records\<close>

text \<open>\<^verbatim>\<open>TokenType\<close>, the typed dictionary describing one wrapped asset.\<close>

record token_type =
  eth_contract :: string
  eth_symbol :: string
  symbol :: string
  name :: string
  decimals :: int

text \<open>
  The dictionaries handed to \<^verbatim>\<open>storage.encode\<close> have fixed keys and are modelled as
  records; a field is prefixed with the contract's name where two dictionaries
  share a key. The entries \<^verbatim>\<open>{}\<close> (ledger, operators, paused, mints) are empty Python
  dictionaries. The value \<^verbatim>\<open>[fa2_contract, k]\<close> of the minter's token table is
  a pair.
\<close>

record token_metadata_entry =
  token_id :: nat
  extras :: "(string \<times> string) list"

record fa2_admin_dict =
  admin :: string
  pending_admin :: "string option"
  paused :: pyval

record fa2_assets_dict =
  ledger :: pyval
  operators :: pyval
  token_metadata :: "(nat \<times> token_metadata_entry) list"
  token_total_supply :: "(nat \<times> int) list"

record fa2_storage =
  fa2_admin :: fa2_admin_dict
  fa2_assets :: fa2_assets_dict
  fa2_metadata :: "(string \<times> string) list"

record minter_admin_dict =
  administrator :: string
  signer :: string
  minter_paused :: bool

record minter_assets_dict =
  tokens :: "(string \<times> (string \<times> nat)) list"
  mints :: pyval

record governance_dict =
  contract :: string
  fees_contract :: string
  wrapping_fees :: int
  unwrapping_fees :: int

record minter_storage =
  minter_admin :: minter_admin_dict
  minter_assets :: minter_assets_dict
  governance :: governance_dict
  minter_metadata :: "(string \<times> string) list"

record quorum_storage =
  quorum_admin :: string
  threshold :: int
  signers :: "(string \<times> string) list"
  quorum_metadata :: "(string \<times> string) list"

section \<open>Storage builders\<close>

text \<open>
  In \<^verbatim>\<open>Deploy.fa2\<close>, \<^verbatim>\<open>Deploy._deploy_minter\<close> and \<^verbatim>\<open>Deploy._deploy_quorum\<close> the storage
  is the dictionary built just before \<^verbatim>\<open>storage.encode\<close> is called. Each builder below is
  that part of the method: the metadata document, its encoding (which can raise), and the
  dictionary. \<open>pkh\<close> is \<^verbatim>\<open>self.utils.client.key.public_key_hash()\<close>.
\<close>

definition fa2_metadata_doc :: "pyval \<Rightarrow> pyval \<Rightarrow> pyval \<Rightarrow> pyval \<Rightarrow> pyval" where
  "fa2_metadata_doc get_balance total_supply is_operator token_metadata_view =
     PyDict [
       (ustr ''interfaces'', PyList [PyStr (ustr ''TZIP-12''), PyStr (ustr ''TZIP-16'')]),
       (ustr ''name'', PyStr (ustr ''Wrap protocol FA2 tokens'')),
       (ustr ''homepage'', PyStr (ustr ''https://github.com/bender-labs/wrap-tz-contracts'')),
       (ustr ''license'', PyDict [(ustr ''name'', PyStr (ustr ''MIT''))]),
       (ustr ''permissions'', PyDict [
          (ustr ''operator'', PyStr (ustr ''owner-or-operator-transfer'')),
          (ustr ''receiver'', PyStr (ustr ''owner-no-hook'')),
          (ustr ''sender'', PyStr (ustr ''owner-no-hook'')),
          (ustr ''custom'', PyDict [(ustr ''tag'', PyStr (ustr ''PAUSABLE_TOKENS''))])]),
       (ustr ''views'', PyList [get_balance, total_supply, is_operator, token_metadata_view])]"

definition fa2_token_entry :: "nat \<Rightarrow> token_type \<Rightarrow> token_metadata_entry" where
  "fa2_token_entry k v =
     \<lparr>token_id = k,
      extras = [(''decimals'', bytes_hex (str_encode (int_repr (decimals v)))),
                (''eth_contract'', bytes_hex (str_encode (eth_contract v))),
                (''eth_symbol'', bytes_hex (str_encode (eth_symbol v))),
                (''name'', bytes_hex (str_encode (name v))),
                (''symbol'', bytes_hex (str_encode (symbol v)))]\<rparr>"

definition fa2_token_metadata :: "token_type list \<Rightarrow> (nat \<times> token_metadata_entry) list" where
  "fa2_token_metadata toks =
     py_dict (map (\<lambda>(k, v). (k, fa2_token_entry k v)) (enumerate 0 toks))"

definition fa2_supply :: "token_type list \<Rightarrow> (nat \<times> int) list" where
  "fa2_supply toks = py_dict (map (\<lambda>(k, v). (k, 0)) (enumerate 0 toks))"

definition fa2_storage_builder ::
  "string \<Rightarrow> pyval \<Rightarrow> pyval \<Rightarrow> pyval \<Rightarrow> pyval \<Rightarrow> token_type list \<Rightarrow> error + fa2_storage" where
  "fa2_storage_builder pkh get_balance total_supply is_operator token_metadata_view toks =
     (case metadata_encode
             (fa2_metadata_doc get_balance total_supply is_operator token_metadata_view) of
        Inl e \<Rightarrow> Inl e
      | Inr meta \<Rightarrow>
          Inr \<lparr>fa2_admin = \<lparr>admin = pkh, pending_admin = None, paused = PyDict []\<rparr>,
               fa2_assets = \<lparr>ledger = PyDict [], operators = PyDict [],
                             token_metadata = fa2_token_metadata toks,
                             token_total_supply = fa2_supply toks\<rparr>,
               fa2_metadata = meta\<rparr>)"

definition minter_metadata_doc :: pyval where
  "minter_metadata_doc =
     PyDict [
       (ustr ''name'', PyStr (ustr ''Wrap protocol minter contract'')),
       (ustr ''homepage'', PyStr (ustr ''https://github.com/bender-labs/wrap-tz-contracts'')),
       (ustr ''license'', PyDict [(ustr ''name'', PyStr (ustr ''MIT''))])]"

definition minter_tokens :: "string \<Rightarrow> token_type list \<Rightarrow> (string \<times> (string \<times> nat)) list" where
  "minter_tokens fa2_contract toks =
     py_dict (map (\<lambda>(k, v). (drop 2 (eth_contract v), (fa2_contract, k))) (enumerate 0 toks))"

definition minter_storage_builder ::
  "string \<Rightarrow> string \<Rightarrow> token_type list \<Rightarrow> string \<Rightarrow> error + minter_storage" where
  "minter_storage_builder pkh quorum_contract toks fa2_contract =
     (let token_table = minter_tokens fa2_contract toks in
      case metadata_encode minter_metadata_doc of
        Inl e \<Rightarrow> Inl e
      | Inr meta \<Rightarrow>
          Inr \<lparr>minter_admin = \<lparr>administrator = pkh, signer = quorum_contract,
                               minter_paused = False\<rparr>,
               minter_assets = \<lparr>tokens = token_table, mints = PyDict []\<rparr>,
               governance = \<lparr>contract = pkh, fees_contract = pkh,
                              wrapping_fees = 100, unwrapping_fees = 100\<rparr>,
               minter_metadata = meta\<rparr>)"

definition quorum_metadata_doc :: pyval where
  "quorum_metadata_doc =
     PyDict [
       (ustr ''name'', PyStr (ustr ''Wrap protocol quorum contract'')),
       (ustr ''homepage'', PyStr (ustr ''https://github.com/bender-labs/wrap-tz-contracts'')),
       (ustr ''license'', PyDict [(ustr ''name'', PyStr (ustr ''MIT''))])]"

definition quorum_storage_builder ::
  "string \<Rightarrow> (string \<times> string) list \<Rightarrow> int \<Rightarrow> error + quorum_storage" where
  "quorum_storage_builder pkh sgs thr =
     (case metadata_encode quorum_metadata_doc of
        Inl e \<Rightarrow> Inl e
      | Inr meta \<Rightarrow>
          Inr \<lparr>quorum_admin = pkh, threshold = thr, signers = sgs, quorum_metadata = meta\<rparr>)"

section \<open>The deployment sequencer\<close>

text \<open>
  The collaborators of \<^verbatim>\<open>Deploy\<close> are parameters of the model:
  \<^item> \<open>public_key_hash\<close>: the account of the session key;
  \<^item> \<open>compile_view\<close>: \<^verbatim>\<open>LigoView("./ligo/fa2/views.religo").compile\<close>;
  \<^item> \<open>fa2_encode\<close>, \<open>minter_encode\<close>, \<open>quorum_encode\<close>: \<^verbatim>\<open>storage.encode\<close> of the three
    compiled contracts, giving an on-chain storage value of type \<open>'m\<close>;
  \<^item> \<open>originate\<close>: \<^verbatim>\<open>self.utils.originate(code, storage)\<close>, which acts on the network
    (a state of type \<open>'w\<close>) and returns the new address;
  \<^item> \<open>minter_confirm_admin\<close>: \<^verbatim>\<open>Minter(self.utils).confirm_admin\<close>.
  Each can fail. The state of a run is the network together with the list of the calls made
  on it so far, each with its outcome. Console output is not modelled.
\<close>

datatype contract_code = Fa2Code | QuorumCode | MinterCode

datatype 'm event =
    Originate contract_code 'm "error + string"
  | ConfirmAdmin string string "error + unit"

record ('w, 'm) env =
  public_key_hash :: string
  compile_view :: "string \<Rightarrow> string \<Rightarrow> string \<Rightarrow> error + pyval"
  fa2_encode :: "fa2_storage \<Rightarrow> error + 'm"
  minter_encode :: "minter_storage \<Rightarrow> error + 'm"
  quorum_encode :: "quorum_storage \<Rightarrow> error + 'm"
  originate :: "contract_code \<Rightarrow> 'm \<Rightarrow> 'w \<Rightarrow> (error + string) \<times> 'w"
  minter_confirm_admin :: "string \<Rightarrow> string \<Rightarrow> 'w \<Rightarrow> (error + unit) \<times> 'w"

record ('w, 'm) state =
  world :: 'w
  calls :: "'m event list"

type_synonym ('w, 'm, 'a) action = "('w, 'm) state \<Rightarrow> (error + 'a) \<times> ('w, 'm) state"

definition returns :: "'a \<Rightarrow> ('w, 'm, 'a) action" where
  "returns x s = (Inr x, s)"

definition raises :: "error \<Rightarrow> ('w, 'm, 'a) action" where
  "raises e s = (Inl e, s)"

definition pure_call :: "error + 'a \<Rightarrow> ('w, 'm, 'a) action" where
  "pure_call r s = (r, s)"

text \<open>Sequencing: an exception in the first action ends the whole computation.\<close>

definition and_then :: "('w, 'm, 'a) action \<Rightarrow> ('a \<Rightarrow> ('w, 'm, 'b) action) \<Rightarrow> ('w, 'm, 'b) action" where
  "and_then act f s = (case act s of (Inl e, s') \<Rightarrow> (Inl e, s') | (Inr x, s') \<Rightarrow> f x s')"

definition originate_call :: "('w, 'm) env \<Rightarrow> contract_code \<Rightarrow> 'm \<Rightarrow> ('w, 'm, string) action" where
  "originate_call env code st s =
     (case originate env code st (world s) of
        (r, w') \<Rightarrow> (r, \<lparr>world = w', calls = calls s @ [Originate code st r]\<rparr>))"

definition confirm_admin_call :: "('w, 'm) env \<Rightarrow> string \<Rightarrow> string \<Rightarrow> ('w, 'm, unit) action" where
  "confirm_admin_call env minter fa2_contract s =
     (case minter_confirm_admin env minter fa2_contract (world s) of
        (r, w') \<Rightarrow> (r, \<lparr>world = w', calls = calls s @ [ConfirmAdmin minter fa2_contract r]\<rparr>))"

text \<open>\<^verbatim>\<open>Deploy.fa2\<close>.\<close>

definition fa2 :: "('w, 'm) env \<Rightarrow> token_type list \<Rightarrow> ('w, 'm, string) action" where
  "fa2 env toks =
     and_then (pure_call (compile_view env ''get_balance'' ''nat''
                            ''get_balance as defined in tzip-12'')) (\<lambda>get_balance.
     and_then (pure_call (compile_view env ''total_supply'' ''nat''
                            ''get_total supply as defined in tzip-12'')) (\<lambda>total_supply.
     and_then (pure_call (compile_view env ''is_operator'' ''bool''
                            ''is_operator as defined in tzip-12'')) (\<lambda>is_operator.
     and_then (pure_call (compile_view env ''token_metadata'' ''(pair nat (map string bytes))''
                            ''is_operator as defined in tzip-12'')) (\<lambda>token_metadata_view.
     and_then (pure_call (fa2_storage_builder (public_key_hash env) get_balance total_supply
                            is_operator token_metadata_view toks)) (\<lambda>storage_dict.
     and_then (pure_call (fa2_encode env storage_dict)) (\<lambda>initial_storage.
     originate_call env Fa2Code initial_storage))))))"

text \<open>\<^verbatim>\<open>Deploy._deploy_minter\<close>.\<close>

definition deploy_minter ::
  "('w, 'm) env \<Rightarrow> string \<Rightarrow> token_type list \<Rightarrow> string \<Rightarrow> ('w, 'm, string) action" where
  "deploy_minter env quorum_contract toks fa2_contract =
     and_then (pure_call (minter_storage_builder (public_key_hash env) quorum_contract toks
                            fa2_contract)) (\<lambda>storage_dict.
     and_then (pure_call (minter_encode env storage_dict)) (\<lambda>initial_storage.
     originate_call env MinterCode initial_storage))"

text \<open>\<^verbatim>\<open>Deploy._deploy_quorum\<close>.\<close>

definition deploy_quorum ::
  "('w, 'm) env \<Rightarrow> (string \<times> string) list \<Rightarrow> int \<Rightarrow> ('w, 'm, string) action" where
  "deploy_quorum env sgs thr =
     and_then (pure_call (quorum_storage_builder (public_key_hash env) sgs thr)) (\<lambda>storage_dict.
     and_then (pure_call (quorum_encode env storage_dict)) (\<lambda>initial_storage.
     originate_call env QuorumCode initial_storage))"

text \<open>
  \<^verbatim>\<open>Deploy._set_fa2_admin\<close> is \<^verbatim>\<open>Token(self.utils).set_admin(fa2, minter)\<close>. The class
  \<^verbatim>\<open>Token\<close> of \<^verbatim>\<open>src/token.py\<close> defines \<^verbatim>\<open>__init__\<close>, \<^verbatim>\<open>originate\<close> and \<^verbatim>\<open>mint\<close>, sets the
  instance attribute \<^verbatim>\<open>client\<close>, and inherits from \<^verbatim>\<open>object\<close> only. The constructor
  succeeds; evaluating the attribute \<^verbatim>\<open>set_admin\<close> on the instance raises
  \<^verbatim>\<open>AttributeError\<close>, so no call is made and the network is not touched.
\<close>

definition set_fa2_admin ::
  "('w, 'm) env \<Rightarrow> string \<Rightarrow> string \<Rightarrow> ('w, 'm, unit) action" where
  "set_fa2_admin env minter fa2_contract = raises AttributeError"

text \<open>\<^verbatim>\<open>Deploy._confirm_admin\<close>.\<close>

definition confirm_admin ::
  "('w, 'm) env \<Rightarrow> string \<Rightarrow> string \<Rightarrow> ('w, 'm, unit) action" where
  "confirm_admin env minter fa2_contract = confirm_admin_call env minter fa2_contract"

text \<open>\<^verbatim>\<open>Deploy.run\<close>.\<close>

definition run ::
  "('w, 'm) env \<Rightarrow> (string \<times> string) list \<Rightarrow> token_type list \<Rightarrow> int \<Rightarrow> ('w, 'm, unit) action" where
  "run env sgs toks thr =
     and_then (fa2 env toks) (\<lambda>fa2_contract.
     and_then (deploy_quorum env sgs thr) (\<lambda>quorum.
     and_then (deploy_minter env quorum toks fa2_contract) (\<lambda>minter.
     and_then (set_fa2_admin env minter fa2_contract) (\<lambda>_.
     and_then (confirm_admin env minter fa2_contract) (\<lambda>_.
     returns ())))))"

section \<open>A sample network\<close>

text \<open>
  Concrete collaborators on which the sequencer can be run: the network state counts the
  contracts originated so far and names the next address after it; the storage encoders
  keep the addresses and names found in the storage, so that a logged call shows what it
  was given. In \<open>failing_env n\<close> the origination fails once \<open>n\<close> contracts exist.
\<close>

definition sample_address :: "nat \<Rightarrow> string" where
  "sample_address w = ''KT1'' @ [char_of (97 + w)]"

definition sample_env :: "(nat, string list) env" where
  "sample_env =
     \<lparr>public_key_hash = ''tz1caller'',
      compile_view = (\<lambda>view_name view_type description. Inr (PyDict [(ustr ''name'', PyStr (ustr view_name))])),
      fa2_encode = (\<lambda>st. Inr [admin (fa2_admin st)]),
      minter_encode = (\<lambda>st. Inr (signer (minter_admin st) #
                                  map (\<lambda>entry. fst (snd entry)) (tokens (minter_assets st)))),
      quorum_encode = (\<lambda>st. Inr (map fst (signers st))),
      originate = (\<lambda>code st w. (Inr (sample_address w), Suc w)),
      minter_confirm_admin = (\<lambda>minter fa2_contract w. (Inr (), w))\<rparr>"

definition failing_env :: "nat \<Rightarrow> (nat, string list) env" where
  "failing_env n =
     sample_env\<lparr>originate := (\<lambda>code st w. if w = n then (Inl OriginationError, w)
                                           else (Inr (sample_address w), Suc w))\<rparr>"

definition weth :: token_type where
  "weth = \<lparr>eth_contract = ''0x01'', eth_symbol = ''ETH'', symbol = ''WETH'',
           name = ''Wrapped Ether'', decimals = 18\<rparr>"

definition initial_state :: "(nat, string list) state" where
  "initial_state = \<lparr>world = 0, calls = []\<rparr>"

section \<open>Properties of Python dictionaries and of the JSON encoder\<close>

lemma update_fresh: "k \<notin> fst ` set al \<Longrightarrow> AList.update k v al = al @ [(k, v)]"
  by (induction al) auto

lemma foldl_update_distinct:
  "distinct (map fst (acc @ ps)) \<Longrightarrow>
   foldl (\<lambda>d (k, v). AList.update k v d) acc ps = acc @ ps"
proof (induction ps arbitrary: acc)
  case Nil
  then show ?case by simp
next
  case (Cons p ps)
  obtain k v where p: "p = (k, v)" by (cases p)
  from Cons.prems have fresh: "k \<notin> fst ` set acc" by (auto simp: p)
  from Cons.prems have "distinct (map fst ((acc @ [(k, v)]) @ ps))" by (auto simp: p)
  from Cons.IH [OF this] show ?case by (simp add: p update_fresh [OF fresh])
qed

lemma py_dict_distinct: "distinct (map fst ps) \<Longrightarrow> py_dict ps = ps"
  using foldl_update_distinct [of "[]" ps] by (simp add: py_dict_def)

lemma map_of_foldl_update:
  "map_of (foldl (\<lambda>d (k, v). AList.update k v d) acc ps) = map_of acc ++ map_of (rev ps)"
proof (induction ps arbitrary: acc)
  case Nil
  then show ?case by simp
next
  case (Cons p ps)
  obtain k v where p: "p = (k, v)" by (cases p)
  show ?case
    by (simp add: p Cons.IH update_conv' map_add_upd_left) (auto simp: map_add_def fun_eq_iff split: option.splits)
qed

lemma map_of_py_dict: "map_of (py_dict ps) = map_of (rev ps)"
  by (simp add: py_dict_def map_of_foldl_update)

lemma keys_foldl_update:
  "fst ` set (foldl (\<lambda>d (k, v). AList.update k v d) acc ps) = fst ` set acc \<union> fst ` set ps"
proof (induction ps arbitrary: acc)
  case Nil
  then show ?case by simp
next
  case (Cons p ps)
  obtain k v where p: "p = (k, v)" by (cases p)
  have "fst ` set (AList.update k v acc) = {k} \<union> fst ` set acc"
    by (rule dom_update)
  with Cons.IH [of "AList.update k v acc"] show ?case by (simp add: p)
qed

lemma distinct_foldl_update:
  "distinct (map fst acc) \<Longrightarrow> distinct (map fst (foldl (\<lambda>d (k, v). AList.update k v d) acc ps))"
  by (induction ps arbitrary: acc) (auto simp: distinct_update split: prod.splits)

lemma keys_py_dict: "fst ` set (py_dict ps) = fst ` set ps"
  by (simp add: py_dict_def keys_foldl_update)

lemma distinct_py_dict: "distinct (map fst (py_dict ps))"
  by (simp add: py_dict_def distinct_foldl_update)

lemma length_py_dict: "length (py_dict ps) = card (fst ` set ps)"
proof -
  have "length (py_dict ps) = length (map fst (py_dict ps))" by simp
  also have "\<dots> = card (set (map fst (py_dict ps)))"
    using distinct_py_dict [of ps] by (metis distinct_card)
  also have "\<dots> = card (fst ` set ps)" by (simp add: keys_py_dict)
  finally show ?thesis .
qed

lemma iterencode_serializable:
  "(\<exists>s. iterencode lvl v = Inr s) = list_all json_leaf (leaves v)"
  "(\<exists>s. iterencode_list lvl xs = Inr s) = list_all json_leaf (leaves_list xs)"
  "(\<exists>s. iterencode_dict lvl kvs = Inr s) = list_all json_leaf (leaves_dict kvs)"
  by (induction lvl v and lvl xs and lvl kvs rule: iterencode_iterencode_list_iterencode_dict.induct)
     (auto split: sum.splits)

lemma iterencode_error:
  "iterencode lvl v = Inl e \<Longrightarrow> e = TypeError"
  "iterencode_list lvl xs = Inl e \<Longrightarrow> e = TypeError"
  "iterencode_dict lvl kvs = Inl e \<Longrightarrow> e = TypeError"
  by (induction lvl v and lvl xs and lvl kvs rule: iterencode_iterencode_list_iterencode_dict.induct)
     (auto split: sum.splits if_splits)

section \<open>The metadata encoder and the storage builders\<close>

lemma json_dumps_total:
  "json_serializable d \<Longrightarrow> \<exists>s. json_dumps d = Inr s"
  by (simp add: json_serializable_def json_dumps_def iterencode_serializable(1))

lemma json_dumps_fails:
  "\<not> json_serializable d \<Longrightarrow> json_dumps d = Inl TypeError"
proof -
  assume "\<not> json_serializable d"
  then have "\<nexists>s. iterencode 0 d = Inr s"
    by (simp add: json_serializable_def iterencode_serializable(1))
  then obtain e where e: "iterencode 0 d = Inl e" by (cases "iterencode 0 d") auto
  with iterencode_error(1) [OF e] show ?thesis by (simp add: json_dumps_def)
qed

lemma meta_uri_hex:
  "bytes_hex (str_encode ''tezos-storage:content'') = ''74657a6f732d73746f726167653a636f6e74656e74''"
  by code_simp

lemma metadata_encode_Inr:
  "json_dumps d = Inr s \<Longrightarrow>
   metadata_encode d = Inr [('''', ''74657a6f732d73746f726167653a636f6e74656e74''),
                            (''content'', bytes_hex (str_encode s))]"
  by (simp add: metadata_encode_def meta_uri_hex py_dict_def)

lemma metadata_encode_total:
  "json_serializable d \<Longrightarrow> \<exists>m. metadata_encode d = Inr m"
  using json_dumps_total [of d] metadata_encode_Inr by blast

text \<open>
  Claim C2. For every JSON-serializable document, \<^verbatim>\<open>_metadata_encode\<close> returns a mapping with
  exactly the two keys \<^verbatim>\<open>""\<close> and \<^verbatim>\<open>"content"\<close>, in this order: the first entry is the
  hexadecimal text of the UTF-8 bytes of \<^verbatim>\<open>tezos-storage:content\<close>, the same for every
  document, and the second is the hexadecimal text of the UTF-8 bytes of the document
  serialised by \<^verbatim>\<open>json.dumps\<close> with \<^verbatim>\<open>indent=2\<close>, which writes dictionary items in insertion
  order.
\<close>

theorem metadata_encode_two_keys:
  assumes "json_serializable d"
  shows "\<exists>s. json_dumps d = Inr s \<and>
             metadata_encode d = Inr [('''', ''74657a6f732d73746f726167653a636f6e74656e74''),
                                      (''content'', bytes_hex (str_encode s))]"
  using json_dumps_total [OF assms] metadata_encode_Inr by blast

lemma license_dumps:
  "json_dumps (PyDict [(ustr ''name'', PyStr (ustr ''MIT''))]) =
     Inr [CHR ''{'', CHR 0x0A, CHR '' '', CHR '' '', CHR 0x22, CHR ''n'', CHR ''a'', CHR ''m'',
          CHR ''e'', CHR 0x22, CHR '':'', CHR '' '', CHR 0x22, CHR ''M'', CHR ''I'', CHR ''T'',
          CHR 0x22, CHR 0x0A, CHR ''}'']"
  by code_simp

theorem metadata_encode_two_keys_witness:
  "json_serializable (PyDict [(ustr ''name'', PyStr (ustr ''MIT''))]) \<and>
   metadata_encode (PyDict [(ustr ''name'', PyStr (ustr ''MIT''))]) =
     Inr [('''', ''74657a6f732d73746f726167653a636f6e74656e74''),
          (''content'', ''7b0a2020226e616d65223a20224d4954220a7d'')]"
proof -
  have h: "json_serializable (PyDict [(ustr ''name'', PyStr (ustr ''MIT''))])"
    by (simp add: json_serializable_def)
  have hx: "bytes_hex (str_encode [CHR ''{'', CHR 0x0A, CHR '' '', CHR '' '', CHR 0x22, CHR ''n'', CHR ''a'', CHR ''m'',
          CHR ''e'', CHR 0x22, CHR '':'', CHR '' '', CHR 0x22, CHR ''M'', CHR ''I'', CHR ''T'',
          CHR 0x22, CHR 0x0A, CHR ''}'']) = ''7b0a2020226e616d65223a20224d4954220a7d''"
    by code_simp
  from metadata_encode_two_keys [OF h] license_dumps hx show ?thesis
    using h by auto
qed

text \<open>
  Claim C9. The encoder succeeds for every document whose leaves are all text, numbers,
  booleans or \<^verbatim>\<open>None\<close>, and fails for every document that has another leaf. The exception
  is the \<^verbatim>\<open>TypeError\<close> of \<^verbatim>\<open>json.dumps\<close>, which \<^verbatim>\<open>_metadata_encode\<close> lets through; it is the
  error the specification calls an encoding error.
\<close>

theorem metadata_encode_fails_iff:
  "(list_all json_leaf (leaves d) \<longrightarrow> (\<exists>m. metadata_encode d = Inr m)) \<and>
   ((\<exists>l \<in> set (leaves d). \<not> json_leaf l) \<longrightarrow> metadata_encode d = Inl TypeError)"
proof (intro conjI impI)
  assume "list_all json_leaf (leaves d)"
  then show "\<exists>m. metadata_encode d = Inr m"
    using metadata_encode_total by (simp add: json_serializable_def)
next
  assume "\<exists>l \<in> set (leaves d). \<not> json_leaf l"
  then have "\<not> json_serializable d"
    by (auto simp: json_serializable_def list_all_iff)
  from json_dumps_fails [OF this] show "metadata_encode d = Inl TypeError"
    by (simp add: metadata_encode_def)
qed

theorem metadata_encode_fails_iff_witness:
  "list_all json_leaf (leaves (PyList [PyInt 3, PyStr (ustr ''a'')])) \<and>
   (\<exists>m. metadata_encode (PyList [PyInt 3, PyStr (ustr ''a'')]) = Inr m) \<and>
   (\<exists>l \<in> set (leaves (PyDict [(ustr ''views'', PyList [PyInt 3, PyBytes [1, 2]])])). \<not> json_leaf l) \<and>
   metadata_encode (PyDict [(ustr ''views'', PyList [PyInt 3, PyBytes [1, 2]])]) = Inl TypeError"
  using metadata_encode_fails_iff [of "PyList [PyInt 3, PyStr (ustr ''a'')]"]
        metadata_encode_fails_iff [of "PyDict [(ustr ''views'', PyList [PyInt 3, PyBytes [1, 2]])]"]
  by simp

lemma quorum_doc_serializable: "json_serializable quorum_metadata_doc"
  by (simp add: json_serializable_def quorum_metadata_doc_def)

lemma minter_doc_serializable: "json_serializable minter_metadata_doc"
  by (simp add: json_serializable_def minter_metadata_doc_def)

lemma fa2_doc_serializable:
  "json_serializable (fa2_metadata_doc a b c d) =
     (list_all json_leaf (leaves a) \<and> list_all json_leaf (leaves b) \<and>
      list_all json_leaf (leaves c) \<and> list_all json_leaf (leaves d))"
  by (simp add: json_serializable_def fa2_metadata_doc_def)

text \<open>
  Claim C7. For every signer mapping and every threshold, the quorum storage holds exactly
  that threshold and exactly those signers, in their order. Nothing relates the threshold
  to the number of signers: the builder succeeds for all of them, so also for every
  threshold from 1 on.
\<close>

theorem quorum_storage_exact:
  "\<exists>m. metadata_encode quorum_metadata_doc = Inr m \<and>
       quorum_storage_builder pkh sgs thr =
         Inr \<lparr>quorum_admin = pkh, threshold = thr, signers = sgs, quorum_metadata = m\<rparr>"
proof -
  obtain m where "metadata_encode quorum_metadata_doc = Inr m"
    using metadata_encode_total [OF quorum_doc_serializable] ..
  then show ?thesis by (simp add: quorum_storage_builder_def)
qed

lemma map_enumerate_nth:
  "map (\<lambda>(k, v). g k v) (enumerate 0 xs) = map (\<lambda>k. g k (xs ! k)) [0..<length xs]"
  by (rule nth_equalityI) (simp_all add: nth_enumerate_eq)

lemma minter_tokens_alt:
  "minter_tokens f toks =
     py_dict (map (\<lambda>k. (drop 2 (eth_contract (toks ! k)), (f, k))) [0..<length toks])"
  unfolding minter_tokens_def
  using map_enumerate_nth [of "\<lambda>k v. (drop 2 (eth_contract v), (f, k))" toks] by simp

lemma fa2_token_metadata_alt:
  "fa2_token_metadata toks = map (\<lambda>k. (k, fa2_token_entry k (toks ! k))) [0..<length toks]"
proof -
  have "distinct (map fst (map (\<lambda>k. (k, fa2_token_entry k (toks ! k))) [0..<length toks]))"
    by (simp add: comp_def)
  from py_dict_distinct [OF this] show ?thesis
    unfolding fa2_token_metadata_def
    using map_enumerate_nth [of "\<lambda>k v. (k, fa2_token_entry k v)" toks] by simp
qed

lemma fa2_supply_alt:
  "fa2_supply toks = map (\<lambda>k. (k, 0)) [0..<length toks]"
proof -
  have "distinct (map fst (map (\<lambda>k. (k, 0::int)) [0..<length toks]))"
    by (simp add: comp_def)
  from py_dict_distinct [OF this] show ?thesis
    unfolding fa2_supply_def
    using map_enumerate_nth [of "\<lambda>k v. (k, 0::int)" toks] by simp
qed



section \<open>The token tables\<close>

text \<open>The table built from the pairs \<open>(g k, (f, k))\<close>, \<open>k\<close> below \<open>n\<close>: the last position with a key wins.\<close>

lemma map_of_rev_positions:
  "j < n \<Longrightarrow> (\<forall>k. j < k \<and> k < n \<longrightarrow> g k \<noteq> g j) \<Longrightarrow>
   map_of (rev (map (\<lambda>k. (g k, (f, k))) [0..<n])) (g j) = Some (f, j)"
proof (induction n)
  case 0
  then show ?case by simp
next
  case (Suc n)
  show ?case
  proof (cases "j = n")
    case True
    then show ?thesis by simp
  next
    case False
    with Suc.prems have "j < n" and "g n \<noteq> g j" by auto
    moreover from Suc.prems have "\<forall>k. j < k \<and> k < n \<longrightarrow> g k \<noteq> g j" by auto
    ultimately show ?thesis using Suc.IH by simp
  qed
qed

lemma py_dict_positions_lookup:
  "j < n \<Longrightarrow> (\<forall>k. j < k \<and> k < n \<longrightarrow> g k \<noteq> g j) \<Longrightarrow>
   map_of (py_dict (map (\<lambda>k. (g k, (f, k))) [0..<n])) (g j) = Some (f, j)"
  by (simp only: map_of_py_dict map_of_rev_positions)

lemma py_dict_entry_mem:
  "(key, v) \<in> set (py_dict ps) \<Longrightarrow> (key, v) \<in> set ps"
proof -
  assume "(key, v) \<in> set (py_dict ps)"
  then have "map_of (py_dict ps) key = Some v"
    using distinct_py_dict [of ps] by simp
  then have "map_of (rev ps) key = Some v" by (simp add: map_of_py_dict)
  then have "(key, v) \<in> set (rev ps)" by (rule map_of_SomeD)
  then show ?thesis by simp
qed

lemma py_dict_positions_entry:
  "(key, (a, k)) \<in> set (py_dict (map (\<lambda>k. (g k, (f, k))) [0..<n])) \<Longrightarrow>
   a = f \<and> k < n \<and> key = g k"
  by (drule py_dict_entry_mem) auto

lemma filter_key_distinct:
  "distinct (map fst xs) \<Longrightarrow> (k, v) \<in> set xs \<Longrightarrow> filter (\<lambda>e. fst e = k) xs = [(k, v)]"
proof (induction xs)
  case Nil
  then show ?case by simp
next
  case (Cons x xs)
  show ?case
  proof (cases "x = (k, v)")
    case True
    with Cons.prems have "\<forall>e \<in> set xs. fst e \<noteq> k" by force
    then have "filter (\<lambda>e. fst e = k) xs = []" by (simp add: filter_empty_conv)
    with True show ?thesis by simp
  next
    case False
    with Cons.prems have in_xs: "(k, v) \<in> set xs" by simp
    then have "k \<in> fst ` set xs" by force
    with Cons.prems have "fst x \<noteq> k" by auto
    with Cons.IH in_xs Cons.prems show ?thesis by simp
  qed
qed

lemma py_dict_positions_length:
  assumes "i < j" and "j < n" and "g i = g j"
  shows "length (py_dict (map (\<lambda>k. (g k, (f, k))) [0..<n])) < n"
proof -
  have "fst ` set (map (\<lambda>k. (g k, (f, k))) [0..<n]) = g ` {0..<n}" by force
  then have len: "length (py_dict (map (\<lambda>k. (g k, (f, k))) [0..<n])) = card (g ` {0..<n})"
    by (simp only: length_py_dict)
  have "i \<in> {0..<n}" "j \<in> {0..<n}" "i \<noteq> j" using assms by auto
  with assms(3) have "\<not> inj_on g {0..<n}" unfolding inj_on_def by blast
  then have "card (g ` {0..<n}) \<noteq> card {0..<n}"
    using eq_card_imp_inj_on [of "{0..<n}" g] by auto
  moreover have "card (g ` {0..<n}) \<le> card {0..<n}" by (rule card_image_le) simp
  ultimately show ?thesis using len by simp
qed

text \<open>
  Claim C4, amended. For every token list and every position \<open>i\<close> in it, the FA2
  token-metadata and total-supply mappings hold at key \<open>i\<close> the entry built from the
  \<open>i\<close>-th specification, with token id \<open>i\<close> and supply 0. Every entry of the minter's token
  table holds the position of a specification with that key, and the entry for the \<open>i\<close>-th
  specification's key holds \<open>i\<close> when no later specification has the same key. Exchanging
  two specifications exchanges their indices.
\<close>

theorem token_index_is_position:
  assumes "i < length toks"
  shows "map_of (fa2_token_metadata toks) i = Some (fa2_token_entry i (toks ! i)) \<and>
         token_id (fa2_token_entry i (toks ! i)) = i \<and>
         map_of (fa2_supply toks) i = Some 0 \<and>
         ((\<forall>j. i < j \<and> j < length toks \<longrightarrow>
                drop 2 (eth_contract (toks ! j)) \<noteq> drop 2 (eth_contract (toks ! i))) \<longrightarrow>
            map_of (minter_tokens f toks) (drop 2 (eth_contract (toks ! i))) = Some (f, i)) \<and>
         (\<forall>key a k. (key, (a, k)) \<in> set (minter_tokens f toks) \<longrightarrow>
            a = f \<and> k < length toks \<and> key = drop 2 (eth_contract (toks ! k))) \<and>
         (\<forall>j. j < length toks \<longrightarrow>
            map_of (fa2_token_metadata (toks[i := toks ! j, j := toks ! i])) j =
              Some (fa2_token_entry j (toks ! i)))"
proof (intro conjI allI impI)
  have m: "map_of (map (\<lambda>k. (k, h k)) [0..<n]) i = (if i < n then Some (h i) else None)" for h :: "nat \<Rightarrow> 'a" and n i
    by (induction n) (auto simp: map_add_def less_Suc_eq split: option.splits)
  show "map_of (fa2_token_metadata toks) i = Some (fa2_token_entry i (toks ! i))"
    using assms by (simp add: fa2_token_metadata_alt m)
  show "token_id (fa2_token_entry i (toks ! i)) = i" by (simp add: fa2_token_entry_def)
  show "map_of (fa2_supply toks) i = Some 0"
    using assms by (simp add: fa2_supply_alt m)
  show "map_of (fa2_token_metadata (toks[i := toks ! j, j := toks ! i])) j =
              Some (fa2_token_entry j (toks ! i))" if "j < length toks" for j
    using that assms by (simp add: fa2_token_metadata_alt m)
next
  assume "\<forall>j. i < j \<and> j < length toks \<longrightarrow>
                drop 2 (eth_contract (toks ! j)) \<noteq> drop 2 (eth_contract (toks ! i))"
  with assms show "map_of (minter_tokens f toks) (drop 2 (eth_contract (toks ! i))) = Some (f, i)"
    unfolding minter_tokens_alt
    by (rule py_dict_positions_lookup [where g = "\<lambda>k. drop 2 (eth_contract (toks ! k))"])
next
  fix key a k
  assume "(key, (a, k)) \<in> set (minter_tokens f toks)"
  then have r: "a = f \<and> k < length toks \<and> key = drop 2 (eth_contract (toks ! k))"
    unfolding minter_tokens_alt
    by (rule py_dict_positions_entry [where g = "\<lambda>k. drop 2 (eth_contract (toks ! k))"])
  from r show "a = f" by simp
  from r show "k < length toks" by simp
  from r show "key = drop 2 (eth_contract (toks ! k))" by simp
qed

text \<open>
  Claim C10, amended. When two specifications at positions \<open>i < j\<close> have the same
  \<^verbatim>\<open>eth_contract\<close> after the first two characters, and no specification after \<open>j\<close> has it,
  the minter's token table has a single entry for that key, with index \<open>j\<close>, and fewer
  entries than the list has elements.
\<close>

theorem later_duplicate_overwrites:
  assumes "i < j" and "j < length toks"
    and "drop 2 (eth_contract (toks ! i)) = drop 2 (eth_contract (toks ! j))"
    and "\<forall>k. j < k \<and> k < length toks \<longrightarrow>
           drop 2 (eth_contract (toks ! k)) \<noteq> drop 2 (eth_contract (toks ! j))"
  shows "filter (\<lambda>entry. fst entry = drop 2 (eth_contract (toks ! j))) (minter_tokens f toks) =
           [(drop 2 (eth_contract (toks ! j)), (f, j))] \<and>
         length (minter_tokens f toks) < length toks"
proof
  let ?g = "\<lambda>k. drop 2 (eth_contract (toks ! k))"
  have "map_of (minter_tokens f toks) (?g j) = Some (f, j)"
    unfolding minter_tokens_alt using assms(2,4) by (rule py_dict_positions_lookup [where g = ?g])
  then have "(?g j, (f, j)) \<in> set (minter_tokens f toks)" by (rule map_of_SomeD)
  moreover have "distinct (map fst (minter_tokens f toks))"
    by (simp only: minter_tokens_alt distinct_py_dict)
  ultimately show "filter (\<lambda>entry. fst entry = ?g j) (minter_tokens f toks) = [(?g j, (f, j))]"
    by (rule filter_key_distinct [rotated])
  show "length (minter_tokens f toks) < length toks"
    unfolding minter_tokens_alt using assms(1,2,3) by (rule py_dict_positions_length [where g = ?g])
qed

text \<open>
  Claim C4 as stated also gives index \<open>i\<close> to the \<open>i\<close>-th specification in the minter's
  table whatever the specifications are. With two specifications of the same
  \<^verbatim>\<open>eth_contract\<close> the table has, for the key of the first, the index 1.
\<close>

theorem minter_index_counterexample:
  "(0::nat) < length [weth, weth\<lparr>symbol := ''WETH2''\<rparr>] \<and>
   map_of (minter_tokens ''KT1a'' [weth, weth\<lparr>symbol := ''WETH2''\<rparr>])
          (drop 2 (eth_contract ([weth, weth\<lparr>symbol := ''WETH2''\<rparr>] ! 0))) = Some (''KT1a'', 1) \<and>
   map_of (minter_tokens ''KT1a'' [weth, weth\<lparr>symbol := ''WETH2''\<rparr>])
          (drop 2 (eth_contract ([weth, weth\<lparr>symbol := ''WETH2''\<rparr>] ! 0))) \<noteq> Some (''KT1a'', 0)"
  by (simp add: minter_tokens_def py_dict_def weth_def)

theorem token_index_is_position_witness:
  "(0::nat) < length [weth, weth\<lparr>eth_contract := ''0x02''\<rparr>] \<and>
   map_of (fa2_token_metadata [weth, weth\<lparr>eth_contract := ''0x02''\<rparr>]) 0 =
     Some (fa2_token_entry 0 weth) \<and>
   map_of (fa2_supply [weth, weth\<lparr>eth_contract := ''0x02''\<rparr>]) 0 = Some 0 \<and>
   map_of (minter_tokens ''KT1a'' [weth, weth\<lparr>eth_contract := ''0x02''\<rparr>]) ''01'' = Some (''KT1a'', 0) \<and>
   map_of (fa2_token_metadata [weth\<lparr>eth_contract := ''0x02''\<rparr>, weth]) 1 =
     Some (fa2_token_entry 1 weth)"
proof -
  let ?toks = "[weth, weth\<lparr>eth_contract := ''0x02''\<rparr>]"
  have len: "(0::nat) < length ?toks" by simp
  have later: "\<forall>j. 0 < j \<and> j < length ?toks \<longrightarrow>
      drop 2 (eth_contract (?toks ! j)) \<noteq> drop 2 (eth_contract (?toks ! 0))"
    by (auto simp: weth_def less_Suc_eq)
  have key: "drop 2 (eth_contract (?toks ! 0)) = ''01''" by (simp add: weth_def)
  have swap: "?toks[0 := ?toks ! 1, 1 := ?toks ! 0] = [weth\<lparr>eth_contract := ''0x02''\<rparr>, weth]"
    by simp
  from token_index_is_position [OF len, of "''KT1a''"] later key swap
  show ?thesis by auto
qed

text \<open>
  Claim C10 as stated gives the index \<open>j\<close> for any two such positions. With three equal
  specifications and \<open>i = 0\<close>, \<open>j = 1\<close> the entry holds the index 2.
\<close>

theorem duplicate_index_counterexample:
  "(0::nat) < 1 \<and> (1::nat) < length [weth, weth, weth] \<and>
   drop 2 (eth_contract ([weth, weth, weth] ! 0)) = drop 2 (eth_contract ([weth, weth, weth] ! 1)) \<and>
   filter (\<lambda>entry. fst entry = drop 2 (eth_contract ([weth, weth, weth] ! 1)))
          (minter_tokens ''KT1a'' [weth, weth, weth]) = [(''01'', (''KT1a'', 2))] \<and>
   filter (\<lambda>entry. fst entry = drop 2 (eth_contract ([weth, weth, weth] ! 1)))
          (minter_tokens ''KT1a'' [weth, weth, weth]) \<noteq> [(''01'', (''KT1a'', 1))]"
  by (simp add: minter_tokens_def py_dict_def weth_def)

theorem later_duplicate_overwrites_witness:
  "(0::nat) < 1 \<and> (1::nat) < length [weth, weth\<lparr>symbol := ''WETH2''\<rparr>] \<and>
   filter (\<lambda>entry. fst entry = ''01'') (minter_tokens ''KT1a'' [weth, weth\<lparr>symbol := ''WETH2''\<rparr>]) =
     [(''01'', (''KT1a'', 1))] \<and>
   length (minter_tokens ''KT1a'' [weth, weth\<lparr>symbol := ''WETH2''\<rparr>]) < 2"
proof -
  let ?toks = "[weth, weth\<lparr>symbol := ''WETH2''\<rparr>]"
  have a: "(0::nat) < 1" by simp
  have b: "(1::nat) < length ?toks" by simp
  have c: "drop 2 (eth_contract (?toks ! 0)) = drop 2 (eth_contract (?toks ! 1))" by simp
  have d: "\<forall>k. 1 < k \<and> k < length ?toks \<longrightarrow>
      drop 2 (eth_contract (?toks ! k)) \<noteq> drop 2 (eth_contract (?toks ! 1))" by auto
  have key: "drop 2 (eth_contract (?toks ! 1)) = ''01''" by (simp add: weth_def)
  from later_duplicate_overwrites [OF a b c d, of "''KT1a''"] key
  show ?thesis by simp
qed

subsection \<open>The token table of the minter storage\<close>

lemma map_of_rev_positions_last:
  "map_of (rev (map (\<lambda>k. (g k, (f, k))) [0..<n])) key = Some (a, k) \<Longrightarrow>
   a = f \<and> k < n \<and> g k = key \<and> (\<forall>j. k < j \<and> j < n \<longrightarrow> g j \<noteq> key)"
proof (induction n)
  case 0
  then show ?case by simp
next
  case (Suc n)
  show ?case
  proof (cases "g n = key")
    case True
    with Suc.prems show ?thesis by auto
  next
    case False
    with Suc.prems have "map_of (rev (map (\<lambda>k. (g k, (f, k))) [0..<n])) key = Some (a, k)"
      by simp
    from Suc.IH [OF this] False show ?thesis by (auto simp: less_Suc_eq)
  qed
qed

lemma py_dict_positions_iff:
  "((key, (a, k)) \<in> set (py_dict (map (\<lambda>k. (g k, (f, k))) [0..<n]))) =
   (a = f \<and> k < n \<and> key = g k \<and> (\<forall>j. k < j \<and> j < n \<longrightarrow> g j \<noteq> key))"
proof
  let ?ps = "map (\<lambda>k. (g k, (f, k))) [0..<n]"
  assume "(key, (a, k)) \<in> set (py_dict ?ps)"
  then have "map_of (py_dict ?ps) key = Some (a, k)"
    using distinct_py_dict [of ?ps] by simp
  then have "map_of (rev ?ps) key = Some (a, k)" by (simp only: map_of_py_dict)
  from map_of_rev_positions_last [OF this]
  show "a = f \<and> k < n \<and> key = g k \<and> (\<forall>j. k < j \<and> j < n \<longrightarrow> g j \<noteq> key)" by auto
next
  let ?ps = "map (\<lambda>k. (g k, (f, k))) [0..<n]"
  assume r: "a = f \<and> k < n \<and> key = g k \<and> (\<forall>j. k < j \<and> j < n \<longrightarrow> g j \<noteq> key)"
  then have "map_of (py_dict ?ps) (g k) = Some (f, k)"
    by (intro py_dict_positions_lookup) auto
  then have "(g k, (f, k)) \<in> set (py_dict ?ps)" by (rule map_of_SomeD)
  with r show "(key, (a, k)) \<in> set (py_dict ?ps)" by simp
qed

text \<open>
  Claim C5, amended. For every quorum address, token list and FA2 address, the minter
  storage is exactly the record below, whose metadata are the encoded minter document and
  whose token table has pairwise distinct keys and holds exactly the following entries: for
  every position \<open>k\<close> of the list such that no later specification has the same
  \<^verbatim>\<open>eth_contract\<close> after its first two characters, the entry that sends this stripped
  \<^verbatim>\<open>eth_contract\<close> to \<^verbatim>\<open>[fa2_contract, k]\<close>. A specification with \<^verbatim>\<open>eth_contract\<close>
  \<^verbatim>\<open>"0xABC"\<close>, at any position of any list, gives the key \<^verbatim>\<open>"ABC"\<close>.
\<close>

theorem minter_storage_record:
  "\<exists>m tbl. metadata_encode minter_metadata_doc = Inr m \<and>
     minter_storage_builder pkh q toks f =
       Inr \<lparr>minter_admin = \<lparr>administrator = pkh, signer = q, minter_paused = False\<rparr>,
            minter_assets = \<lparr>tokens = tbl, mints = PyDict []\<rparr>,
            governance = \<lparr>contract = pkh, fees_contract = pkh,
                           wrapping_fees = 100, unwrapping_fees = 100\<rparr>,
            minter_metadata = m\<rparr> \<and>
     distinct (map fst tbl) \<and>
     (\<forall>key a k. ((key, (a, k)) \<in> set tbl) =
        (a = f \<and> k < length toks \<and> key = drop 2 (eth_contract (toks ! k)) \<and>
         (\<forall>j. k < j \<and> j < length toks \<longrightarrow> drop 2 (eth_contract (toks ! j)) \<noteq> key))) \<and>
     (\<forall>i. i < length toks \<and> eth_contract (toks ! i) = ''0xABC'' \<longrightarrow> ''ABC'' \<in> fst ` set tbl)"
proof -
  let ?g = "\<lambda>k. drop 2 (eth_contract (toks ! k))"
  let ?ps = "map (\<lambda>k. (?g k, (f, k))) [0..<length toks]"
  obtain m where m: "metadata_encode minter_metadata_doc = Inr m"
    using metadata_encode_total [OF minter_doc_serializable] ..
  have tbl: "minter_tokens f toks = py_dict ?ps" by (rule minter_tokens_alt)
  have b: "minter_storage_builder pkh q toks f =
       Inr \<lparr>minter_admin = \<lparr>administrator = pkh, signer = q, minter_paused = False\<rparr>,
            minter_assets = \<lparr>tokens = py_dict ?ps, mints = PyDict []\<rparr>,
            governance = \<lparr>contract = pkh, fees_contract = pkh,
                           wrapping_fees = 100, unwrapping_fees = 100\<rparr>,
            minter_metadata = m\<rparr>"
    using m by (simp add: minter_storage_builder_def tbl)
  have d: "distinct (map fst (py_dict ?ps))" by (rule distinct_py_dict)
  have e: "\<forall>key a k. ((key, (a, k)) \<in> set (py_dict ?ps)) =
        (a = f \<and> k < length toks \<and> key = ?g k \<and>
         (\<forall>j. k < j \<and> j < length toks \<longrightarrow> ?g j \<noteq> key))"
    by (intro allI py_dict_positions_iff [where g = ?g])
  have x: "\<forall>i. i < length toks \<and> eth_contract (toks ! i) = ''0xABC'' \<longrightarrow>
             ''ABC'' \<in> fst ` set (py_dict ?ps)"
  proof (intro allI impI)
    fix i assume i: "i < length toks \<and> eth_contract (toks ! i) = ''0xABC''"
    then have "?g i = ''ABC''" by simp
    moreover from i have "?g i \<in> fst ` set ?ps" by force
    ultimately show "''ABC'' \<in> fst ` set (py_dict ?ps)" by (simp only: keys_py_dict)
  qed
  from m b d e x show ?thesis by blast
qed

text \<open>
  A list of three specifications, the last two with the same \<^verbatim>\<open>eth_contract\<close>: the table
  holds the first and the third position, and not the second.
\<close>

lemma sample_tokens_keys:
  "length [weth\<lparr>eth_contract := ''0xABC''\<rparr>, weth, weth\<lparr>symbol := ''WETH2''\<rparr>] = 3"
  "drop 2 (eth_contract ([weth\<lparr>eth_contract := ''0xABC''\<rparr>, weth, weth\<lparr>symbol := ''WETH2''\<rparr>] ! 0)) = ''ABC''"
  "drop 2 (eth_contract ([weth\<lparr>eth_contract := ''0xABC''\<rparr>, weth, weth\<lparr>symbol := ''WETH2''\<rparr>] ! 1)) = ''01''"
  "drop 2 (eth_contract ([weth\<lparr>eth_contract := ''0xABC''\<rparr>, weth, weth\<lparr>symbol := ''WETH2''\<rparr>] ! 2)) = ''01''"
  "eth_contract ([weth\<lparr>eth_contract := ''0xABC''\<rparr>, weth, weth\<lparr>symbol := ''WETH2''\<rparr>] ! 0) = ''0xABC''"
  by (simp_all add: weth_def)

theorem minter_storage_record_witness:
  "\<exists>m tbl. minter_storage_builder ''tz1caller'' ''KT1b''
              [weth\<lparr>eth_contract := ''0xABC''\<rparr>, weth, weth\<lparr>symbol := ''WETH2''\<rparr>] ''KT1a'' =
       Inr \<lparr>minter_admin = \<lparr>administrator = ''tz1caller'', signer = ''KT1b'', minter_paused = False\<rparr>,
            minter_assets = \<lparr>tokens = tbl, mints = PyDict []\<rparr>,
            governance = \<lparr>contract = ''tz1caller'', fees_contract = ''tz1caller'',
                           wrapping_fees = 100, unwrapping_fees = 100\<rparr>,
            minter_metadata = m\<rparr> \<and>
     (''ABC'', (''KT1a'', 0)) \<in> set tbl \<and> (''01'', (''KT1a'', 2)) \<in> set tbl \<and>
     (''01'', (''KT1a'', 1)) \<notin> set tbl \<and> ''ABC'' \<in> fst ` set tbl"
  using minter_storage_record [of "''tz1caller''" "''KT1b''"
      "[weth\<lparr>eth_contract := ''0xABC''\<rparr>, weth, weth\<lparr>symbol := ''WETH2''\<rparr>]" "''KT1a''"]
proof (elim exE conjE)
  let ?toks = "[weth\<lparr>eth_contract := ''0xABC''\<rparr>, weth, weth\<lparr>symbol := ''WETH2''\<rparr>]"
  fix m tbl
  assume b: "minter_storage_builder ''tz1caller'' ''KT1b'' ?toks ''KT1a'' =
       Inr \<lparr>minter_admin = \<lparr>administrator = ''tz1caller'', signer = ''KT1b'', minter_paused = False\<rparr>,
            minter_assets = \<lparr>tokens = tbl, mints = PyDict []\<rparr>,
            governance = \<lparr>contract = ''tz1caller'', fees_contract = ''tz1caller'',
                           wrapping_fees = 100, unwrapping_fees = 100\<rparr>,
            minter_metadata = m\<rparr>"
    and e: "\<forall>key a k. ((key, (a, k)) \<in> set tbl) =
        (a = ''KT1a'' \<and> k < length ?toks \<and> key = drop 2 (eth_contract (?toks ! k)) \<and>
         (\<forall>j. k < j \<and> j < length ?toks \<longrightarrow> drop 2 (eth_contract (?toks ! j)) \<noteq> key))"
    and x: "\<forall>i. i < length ?toks \<and> eth_contract (?toks ! i) = ''0xABC'' \<longrightarrow>
             ''ABC'' \<in> fst ` set tbl"
  have j12: "\<And>j::nat. 0 < j \<and> j < 3 \<Longrightarrow> j = 1 \<or> j = 2" by arith
  have later0: "\<forall>j. 0 < j \<and> j < length ?toks \<longrightarrow> drop 2 (eth_contract (?toks ! j)) \<noteq> ''ABC''"
  proof (intro allI impI)
    fix j assume "0 < j \<and> j < length ?toks"
    then have "j = 1 \<or> j = 2" by (intro j12) (simp only: sample_tokens_keys(1))
    then show "drop 2 (eth_contract (?toks ! j)) \<noteq> ''ABC''"
      using sample_tokens_keys(3,4) by auto
  qed
  have later2: "\<forall>j. 2 < j \<and> j < length ?toks \<longrightarrow> drop 2 (eth_contract (?toks ! j)) \<noteq> ''01''"
    by (simp only: sample_tokens_keys(1)) arith
  have k0: "(''ABC'', (''KT1a'', 0)) \<in> set tbl"
    using later0 sample_tokens_keys(1,2)
    by (simp only: e [rule_format, of "''ABC''" "''KT1a''" 0]) simp
  have k2: "(''01'', (''KT1a'', 2)) \<in> set tbl"
    using later2 sample_tokens_keys(1,4)
    by (simp only: e [rule_format, of "''01''" "''KT1a''" 2]) simp
  have "\<not> (\<forall>j. 1 < j \<and> j < length ?toks \<longrightarrow> drop 2 (eth_contract (?toks ! j)) \<noteq> ''01'')"
  proof
    assume "\<forall>j. 1 < j \<and> j < length ?toks \<longrightarrow> drop 2 (eth_contract (?toks ! j)) \<noteq> ''01''"
    then have "1 < (2::nat) \<and> 2 < length ?toks \<longrightarrow> drop 2 (eth_contract (?toks ! 2)) \<noteq> ''01''" ..
    then show False by (simp only: sample_tokens_keys(1,4)) simp
  qed
  then have k1: "(''01'', (''KT1a'', 1)) \<notin> set tbl"
    by (simp only: e [rule_format, of "''01''" "''KT1a''" 1]) simp
  have "0 < length ?toks \<and> eth_contract (?toks ! 0) = ''0xABC''"
    by (simp only: sample_tokens_keys(1,5)) simp
  then have kx: "''ABC'' \<in> fst ` set tbl" by (rule x [rule_format])
  show ?thesis by (intro exI conjI) (rule b k0 k2 k1 kx)+
qed

text \<open>
  Claim C5 as stated sends the stripped \<^verbatim>\<open>eth_contract\<close> of every specification to the
  index of that specification. With two specifications of equal \<^verbatim>\<open>eth_contract\<close> the
  storage that the builder returns has a single token entry, which holds index 1: the key of
  the specification at position 0 is not sent to index 0.
\<close>

theorem minter_storage_index_counterexample:
  "\<not> isl (minter_storage_builder ''tz1caller'' ''KT1b'' [weth, weth\<lparr>symbol := ''WETH2''\<rparr>] ''KT1a'') \<and>
   tokens (minter_assets (projr (minter_storage_builder ''tz1caller'' ''KT1b''
                                   [weth, weth\<lparr>symbol := ''WETH2''\<rparr>] ''KT1a''))) =
     [(''01'', (''KT1a'', 1))] \<and>
   drop 2 (eth_contract ([weth, weth\<lparr>symbol := ''WETH2''\<rparr>] ! 0)) = ''01'' \<and>
   (''01'', (''KT1a'', 0)) \<notin> set [(''01'', (''KT1a'', 1 :: nat))]"
proof -
  obtain m where "metadata_encode minter_metadata_doc = Inr m"
    using metadata_encode_total [OF minter_doc_serializable] ..
  then show ?thesis
    by (simp add: minter_storage_builder_def minter_tokens_def py_dict_def weth_def)
qed

section \<open>Runs of the sequencer\<close>

lemma and_then_Inl: "act s = (Inl e, s') \<Longrightarrow> and_then act f s = (Inl e, s')"
  by (simp add: and_then_def)

lemma and_then_Inr: "act s = (Inr x, s') \<Longrightarrow> and_then act f s = f x s'"
  by (simp add: and_then_def)

lemma and_then_pure_call:
  "and_then (pure_call r) f s = (case r of Inl e \<Rightarrow> (Inl e, s) | Inr x \<Rightarrow> f x s)"
  by (simp add: and_then_def pure_call_def split: sum.splits)

lemma originate_call_calls:
  "originate_call env code st s = (r, s') \<Longrightarrow> calls s' = calls s @ [Originate code st r]"
  by (auto simp: originate_call_def split: prod.splits)

lemma fa2_calls:
  "fa2 env toks s = (r, s') \<Longrightarrow>
     (\<exists>e. r = Inl e \<and> s' = s) \<or> (\<exists>st. calls s' = calls s @ [Originate Fa2Code st r])"
  by (auto simp: fa2_def and_then_pure_call dest: originate_call_calls split: sum.splits)

lemma deploy_quorum_calls:
  "deploy_quorum env sgs thr s = (r, s') \<Longrightarrow>
     (\<exists>e. r = Inl e \<and> s' = s) \<or> (\<exists>st. calls s' = calls s @ [Originate QuorumCode st r])"
  by (auto simp: deploy_quorum_def and_then_pure_call dest: originate_call_calls split: sum.splits)

lemma deploy_minter_calls:
  "deploy_minter env q toks fa s = (r, s') \<Longrightarrow>
     (\<exists>e. r = Inl e \<and> s' = s) \<or> (\<exists>st. calls s' = calls s @ [Originate MinterCode st r])"
  by (auto simp: deploy_minter_def and_then_pure_call dest: originate_call_calls split: sum.splits)

lemma run_fails_at_fa2:
  "fa2 env toks s0 = (Inl e, s1) \<Longrightarrow> run env sgs toks thr s0 = (Inl e, s1)"
  by (simp add: run_def and_then_Inl)

lemma run_fails_at_quorum:
  "fa2 env toks s0 = (Inr fa, s1) \<Longrightarrow> deploy_quorum env sgs thr s1 = (Inl e, s2) \<Longrightarrow>
   run env sgs toks thr s0 = (Inl e, s2)"
  by (simp add: run_def and_then_Inl and_then_Inr)

lemma run_fails_at_minter:
  "fa2 env toks s0 = (Inr fa, s1) \<Longrightarrow> deploy_quorum env sgs thr s1 = (Inr q, s2) \<Longrightarrow>
   deploy_minter env q toks fa s2 = (Inl e, s3) \<Longrightarrow>
   run env sgs toks thr s0 = (Inl e, s3)"
  by (simp add: run_def and_then_Inl and_then_Inr)

lemma run_fails_at_set_admin:
  "fa2 env toks s0 = (Inr fa, s1) \<Longrightarrow> deploy_quorum env sgs thr s1 = (Inr q, s2) \<Longrightarrow>
   deploy_minter env q toks fa s2 = (Inr mi, s3) \<Longrightarrow>
   run env sgs toks thr s0 = (Inl AttributeError, s3)"
  by (simp add: run_def and_then_Inr set_fa2_admin_def raises_def and_then_Inl)

lemma run_never_returns: "fst (run env sgs toks thr s0) \<noteq> Inr u"
  by (auto simp: run_def and_then_def set_fa2_admin_def raises_def split: sum.splits prod.splits)

lemma fa2_storage_builder_total:
  assumes "list_all json_leaf (leaves a)" and "list_all json_leaf (leaves b)"
    and "list_all json_leaf (leaves c)" and "list_all json_leaf (leaves d)"
  shows "\<exists>m. fa2_storage_builder pkh a b c d toks =
           Inr \<lparr>fa2_admin = \<lparr>admin = pkh, pending_admin = None, paused = PyDict []\<rparr>,
                fa2_assets = \<lparr>ledger = PyDict [], operators = PyDict [],
                              token_metadata = fa2_token_metadata toks,
                              token_total_supply = fa2_supply toks\<rparr>,
                fa2_metadata = m\<rparr>"
proof -
  have "json_serializable (fa2_metadata_doc a b c d)"
    using assms by (simp add: fa2_doc_serializable)
  then obtain m where "metadata_encode (fa2_metadata_doc a b c d) = Inr m"
    using metadata_encode_total by blast
  then show ?thesis by (simp add: fa2_storage_builder_def)
qed

lemma quorum_storage_builder_total:
  "\<exists>m. quorum_storage_builder pkh sgs thr =
         Inr \<lparr>quorum_admin = pkh, threshold = thr, signers = sgs, quorum_metadata = m\<rparr>"
proof -
  obtain m where "metadata_encode quorum_metadata_doc = Inr m"
    using metadata_encode_total [OF quorum_doc_serializable] ..
  then show ?thesis by (simp add: quorum_storage_builder_def)
qed

lemma minter_storage_builder_total:
  "\<exists>m. minter_storage_builder pkh q toks f =
         Inr \<lparr>minter_admin = \<lparr>administrator = pkh, signer = q, minter_paused = False\<rparr>,
              minter_assets = \<lparr>tokens = minter_tokens f toks, mints = PyDict []\<rparr>,
              governance = \<lparr>contract = pkh, fees_contract = pkh,
                             wrapping_fees = 100, unwrapping_fees = 100\<rparr>,
              minter_metadata = m\<rparr>"
proof -
  obtain m where "metadata_encode minter_metadata_doc = Inr m"
    using metadata_encode_total [OF minter_doc_serializable] ..
  then show ?thesis by (simp add: minter_storage_builder_def)
qed

lemma sample_addresses:
  "sample_address 0 = ''KT1a''" "sample_address (Suc 0) = ''KT1b''"
  "sample_address (Suc (Suc 0)) = ''KT1c''"
  by code_simp+

lemma minter_tokens_weth: "minter_tokens f [weth] = [(''01'', (f, 0))]"
  by (simp add: minter_tokens_def py_dict_def weth_def)

text \<open>The three originations on an environment that differs from the sample one in
  \<open>originate\<close> only.\<close>

lemma fa2_on_sample:
  assumes "compile_view env = compile_view sample_env"
    and "fa2_encode env = fa2_encode sample_env"
    and "public_key_hash env = ''tz1caller''"
  shows "fa2 env toks s =
           originate_call env Fa2Code [''tz1caller''] s"
proof -
  obtain m where "fa2_storage_builder ''tz1caller'' (PyDict [(ustr ''name'', PyStr (ustr ''get_balance''))])
      (PyDict [(ustr ''name'', PyStr (ustr ''total_supply''))]) (PyDict [(ustr ''name'', PyStr (ustr ''is_operator''))])
      (PyDict [(ustr ''name'', PyStr (ustr ''token_metadata''))]) toks =
           Inr \<lparr>fa2_admin = \<lparr>admin = ''tz1caller'', pending_admin = None, paused = PyDict []\<rparr>,
                fa2_assets = \<lparr>ledger = PyDict [], operators = PyDict [],
                              token_metadata = fa2_token_metadata toks,
                              token_total_supply = fa2_supply toks\<rparr>,
                fa2_metadata = m\<rparr>"
    using fa2_storage_builder_total [of "PyDict [(ustr ''name'', PyStr (ustr ''get_balance''))]"
      "PyDict [(ustr ''name'', PyStr (ustr ''total_supply''))]" "PyDict [(ustr ''name'', PyStr (ustr ''is_operator''))]"
      "PyDict [(ustr ''name'', PyStr (ustr ''token_metadata''))]" "''tz1caller''" toks]
    by auto
  then show ?thesis
    by (simp add: fa2_def and_then_pure_call assms sample_env_def)
qed

lemma deploy_quorum_on_sample:
  assumes "quorum_encode env = quorum_encode sample_env"
  shows "deploy_quorum env sgs thr s = originate_call env QuorumCode (map fst sgs) s"
proof -
  obtain m where "quorum_storage_builder (public_key_hash env) sgs thr =
         Inr \<lparr>quorum_admin = public_key_hash env, threshold = thr, signers = sgs,
              quorum_metadata = m\<rparr>"
    using quorum_storage_builder_total by blast
  then show ?thesis
    by (simp add: deploy_quorum_def and_then_pure_call assms sample_env_def)
qed

lemma deploy_minter_on_sample:
  assumes "minter_encode env = minter_encode sample_env"
  shows "deploy_minter env q toks fa s =
           originate_call env MinterCode (q # map (\<lambda>entry. fst (snd entry)) (minter_tokens fa toks)) s"
proof -
  obtain m where "minter_storage_builder (public_key_hash env) q toks fa =
         Inr \<lparr>minter_admin = \<lparr>administrator = public_key_hash env, signer = q,
                               minter_paused = False\<rparr>,
              minter_assets = \<lparr>tokens = minter_tokens fa toks, mints = PyDict []\<rparr>,
              governance = \<lparr>contract = public_key_hash env, fees_contract = public_key_hash env,
                             wrapping_fees = 100, unwrapping_fees = 100\<rparr>,
              minter_metadata = m\<rparr>"
    using minter_storage_builder_total by blast
  then show ?thesis
    by (simp add: deploy_minter_def and_then_pure_call assms sample_env_def)
qed

lemma sample_fa2:
  "fa2 sample_env [weth] initial_state =
     (Inr ''KT1a'', \<lparr>world = 1, calls = [Originate Fa2Code [''tz1caller''] (Inr ''KT1a'')]\<rparr>)"
  by (subst fa2_on_sample)
     (simp_all add: sample_env_def originate_call_def initial_state_def sample_addresses)

lemma sample_quorum:
  "deploy_quorum sample_env [(''a'', ''pkhA'')] 1
       \<lparr>world = 1, calls = [Originate Fa2Code [''tz1caller''] (Inr ''KT1a'')]\<rparr> =
     (Inr ''KT1b'', \<lparr>world = 2, calls = [Originate Fa2Code [''tz1caller''] (Inr ''KT1a''),
                                          Originate QuorumCode [''a''] (Inr ''KT1b'')]\<rparr>)"
  by (subst deploy_quorum_on_sample)
     (simp_all add: sample_env_def originate_call_def sample_addresses)

lemma sample_minter:
  "deploy_minter sample_env ''KT1b'' [weth] ''KT1a''
       \<lparr>world = 2, calls = [Originate Fa2Code [''tz1caller''] (Inr ''KT1a''),
                             Originate QuorumCode [''a''] (Inr ''KT1b'')]\<rparr> =
     (Inr ''KT1c'', \<lparr>world = 3, calls = [Originate Fa2Code [''tz1caller''] (Inr ''KT1a''),
                                          Originate QuorumCode [''a''] (Inr ''KT1b''),
                                          Originate MinterCode [''KT1b'', ''KT1a''] (Inr ''KT1c'')]\<rparr>)"
  by (subst deploy_minter_on_sample)
     (simp_all add: sample_env_def originate_call_def sample_addresses minter_tokens_weth
        numeral_2_eq_2)

text \<open>
  Claim C1. The sequencer is to perform five steps in order: originate the FA2 contract,
  the quorum contract and the minter contract, then call the FA2 admin-change entrypoint
  and the minter's confirmation. On the sample network, where every origination succeeds,
  the run makes the three originations in this order, each from the outputs of the ones
  before (the minter's storage holds the quorum address and the FA2 address), and then ends
  with \<^verbatim>\<open>AttributeError\<close> at the fourth step: \<^verbatim>\<open>Token\<close> has no \<^verbatim>\<open>set_admin\<close>. Neither the
  admin change nor the confirmation is ever called (\<open>run_never_returns\<close>: no run completes).
\<close>

theorem run_sample_stops_at_admin_handoff:
  "run sample_env [(''a'', ''pkhA'')] [weth] 1 initial_state =
     (Inl AttributeError,
      \<lparr>world = 3, calls = [Originate Fa2Code [''tz1caller''] (Inr ''KT1a''),
                            Originate QuorumCode [''a''] (Inr ''KT1b''),
                            Originate MinterCode [''KT1b'', ''KT1a''] (Inr ''KT1c'')]\<rparr>)"
  by (rule run_fails_at_set_admin [OF sample_fa2 sample_quorum sample_minter])

text \<open>
  Claim C8. A failure in any step ends the run with that error, in the state reached at the
  failure: no later step has run. In particular, when the minter origination fails, the
  FA2 and quorum contracts have been originated (their addresses are in the log of calls),
  the log ends there or with the failed minter origination, and it holds no admin call and
  no second attempt.
\<close>

theorem run_aborts_at_first_failure:
  "(fa2 env toks s0 = (Inl e, s1) \<longrightarrow> run env sgs toks thr s0 = (Inl e, s1)) \<and>
   (fa2 env toks s0 = (Inr fa, s1) \<and> deploy_quorum env sgs thr s1 = (Inl e, s2) \<longrightarrow>
      run env sgs toks thr s0 = (Inl e, s2)) \<and>
   (fa2 env toks s0 = (Inr fa, s1) \<and> deploy_quorum env sgs thr s1 = (Inr q, s2) \<and>
    deploy_minter env q toks fa s2 = (Inl e, s3) \<longrightarrow>
      run env sgs toks thr s0 = (Inl e, s3) \<and>
      (\<exists>st1 st2. calls s2 = calls s0 @ [Originate Fa2Code st1 (Inr fa),
                                          Originate QuorumCode st2 (Inr q)]) \<and>
      (calls s3 = calls s2 \<or> (\<exists>st3. calls s3 = calls s2 @ [Originate MinterCode st3 (Inl e)]))) \<and>
   (fa2 env toks s0 = (Inr fa, s1) \<and> deploy_quorum env sgs thr s1 = (Inr q, s2) \<and>
    deploy_minter env q toks fa s2 = (Inr mi, s3) \<and> set_fa2_admin env mi fa s3 = (Inl e, s4) \<longrightarrow>
      run env sgs toks thr s0 = (Inl e, s4) \<and> calls s4 = calls s3)"
proof (intro conjI impI)
  assume "fa2 env toks s0 = (Inl e, s1)"
  then show "run env sgs toks thr s0 = (Inl e, s1)" by (rule run_fails_at_fa2)
next
  assume "fa2 env toks s0 = (Inr fa, s1) \<and> deploy_quorum env sgs thr s1 = (Inl e, s2)"
  then show "run env sgs toks thr s0 = (Inl e, s2)" by (simp add: run_fails_at_quorum)
next
  assume h: "fa2 env toks s0 = (Inr fa, s1) \<and> deploy_quorum env sgs thr s1 = (Inr q, s2) \<and>
    deploy_minter env q toks fa s2 = (Inl e, s3)"
  then show "run env sgs toks thr s0 = (Inl e, s3)" by (simp add: run_fails_at_minter)
  from h fa2_calls [of env toks s0 "Inr fa" s1]
  obtain st1 where 1: "calls s1 = calls s0 @ [Originate Fa2Code st1 (Inr fa)]" by auto
  from h deploy_quorum_calls [of env sgs thr s1 "Inr q" s2]
  obtain st2 where 2: "calls s2 = calls s1 @ [Originate QuorumCode st2 (Inr q)]" by auto
  from 1 2 show "\<exists>st1 st2. calls s2 = calls s0 @ [Originate Fa2Code st1 (Inr fa),
                                          Originate QuorumCode st2 (Inr q)]" by simp
  from h deploy_minter_calls [of env q toks fa s2 "Inl e" s3]
  show "calls s3 = calls s2 \<or> (\<exists>st3. calls s3 = calls s2 @ [Originate MinterCode st3 (Inl e)])"
    by auto
next
  assume h: "fa2 env toks s0 = (Inr fa, s1) \<and> deploy_quorum env sgs thr s1 = (Inr q, s2) \<and>
    deploy_minter env q toks fa s2 = (Inr mi, s3) \<and> set_fa2_admin env mi fa s3 = (Inl e, s4)"
  then show "run env sgs toks thr s0 = (Inl e, s4)"
    by (simp add: run_def and_then_Inr and_then_Inl)
  from h show "calls s4 = calls s3" by (auto simp: set_fa2_admin_def raises_def)
qed

lemma failing_env_fields:
  "compile_view (failing_env n) = compile_view sample_env"
  "fa2_encode (failing_env n) = fa2_encode sample_env"
  "quorum_encode (failing_env n) = quorum_encode sample_env"
  "minter_encode (failing_env n) = minter_encode sample_env"
  "public_key_hash (failing_env n) = ''tz1caller''"
  by (simp_all add: failing_env_def sample_env_def)

lemma originate_call_failing_env:
  "originate_call (failing_env n) code st \<lparr>world = w, calls = cs\<rparr> =
     (if w = n then (Inl OriginationError,
                     \<lparr>world = w, calls = cs @ [Originate code st (Inl OriginationError)]\<rparr>)
      else (Inr (sample_address w),
            \<lparr>world = Suc w, calls = cs @ [Originate code st (Inr (sample_address w))]\<rparr>))"
  by (simp add: originate_call_def failing_env_def)

lemma failing_fa2:
  "fa2 (failing_env n) toks \<lparr>world = w, calls = cs\<rparr> =
     (if w = n then (Inl OriginationError,
                     \<lparr>world = w, calls = cs @ [Originate Fa2Code [''tz1caller''] (Inl OriginationError)]\<rparr>)
      else (Inr (sample_address w),
            \<lparr>world = Suc w, calls = cs @ [Originate Fa2Code [''tz1caller''] (Inr (sample_address w))]\<rparr>))"
  by (subst fa2_on_sample) (simp_all only: failing_env_fields originate_call_failing_env)

lemma failing_quorum:
  "deploy_quorum (failing_env n) sgs thr \<lparr>world = w, calls = cs\<rparr> =
     (if w = n then (Inl OriginationError,
                     \<lparr>world = w, calls = cs @ [Originate QuorumCode (map fst sgs) (Inl OriginationError)]\<rparr>)
      else (Inr (sample_address w),
            \<lparr>world = Suc w, calls = cs @ [Originate QuorumCode (map fst sgs) (Inr (sample_address w))]\<rparr>))"
  by (subst deploy_quorum_on_sample) (simp_all only: failing_env_fields originate_call_failing_env)

lemma failing_minter:
  "deploy_minter (failing_env n) q toks fa \<lparr>world = w, calls = cs\<rparr> =
     (if w = n then (Inl OriginationError,
                     \<lparr>world = w, calls = cs @ [Originate MinterCode
                         (q # map (\<lambda>entry. fst (snd entry)) (minter_tokens fa toks)) (Inl OriginationError)]\<rparr>)
      else (Inr (sample_address w),
            \<lparr>world = Suc w, calls = cs @ [Originate MinterCode
                         (q # map (\<lambda>entry. fst (snd entry)) (minter_tokens fa toks)) (Inr (sample_address w))]\<rparr>))"
  by (subst deploy_minter_on_sample) (simp_all only: failing_env_fields originate_call_failing_env)

theorem run_aborts_at_first_failure_witness:
  "run (failing_env 0) [(''a'', ''pkhA'')] [weth] 1 initial_state =
     (Inl OriginationError,
      \<lparr>world = 0, calls = [Originate Fa2Code [''tz1caller''] (Inl OriginationError)]\<rparr>) \<and>
   run (failing_env 1) [(''a'', ''pkhA'')] [weth] 1 initial_state =
     (Inl OriginationError,
      \<lparr>world = 1, calls = [Originate Fa2Code [''tz1caller''] (Inr ''KT1a''),
                            Originate QuorumCode [''a''] (Inl OriginationError)]\<rparr>) \<and>
   run (failing_env 2) [(''a'', ''pkhA'')] [weth] 1 initial_state =
     (Inl OriginationError,
      \<lparr>world = 2, calls = [Originate Fa2Code [''tz1caller''] (Inr ''KT1a''),
                            Originate QuorumCode [''a''] (Inr ''KT1b''),
                            Originate MinterCode [''KT1b'', ''KT1a''] (Inl OriginationError)]\<rparr>) \<and>
   run (failing_env 3) [(''a'', ''pkhA'')] [weth] 1 initial_state =
     (Inl AttributeError,
      \<lparr>world = 3, calls = [Originate Fa2Code [''tz1caller''] (Inr ''KT1a''),
                            Originate QuorumCode [''a''] (Inr ''KT1b''),
                            Originate MinterCode [''KT1b'', ''KT1a''] (Inr ''KT1c'')]\<rparr>)"
proof -
  let ?s1 = "\<lparr>world = 1, calls = [Originate Fa2Code [''tz1caller''] (Inr ''KT1a'')]\<rparr>
               :: (nat, string list) state"
  let ?s2 = "\<lparr>world = 2, calls = [Originate Fa2Code [''tz1caller''] (Inr ''KT1a''),
                            Originate QuorumCode [''a''] (Inr ''KT1b'')]\<rparr>
               :: (nat, string list) state"
  let ?s3 = "\<lparr>world = 3, calls = [Originate Fa2Code [''tz1caller''] (Inr ''KT1a''),
                            Originate QuorumCode [''a''] (Inr ''KT1b''),
                            Originate MinterCode [''KT1b'', ''KT1a''] (Inr ''KT1c'')]\<rparr>
               :: (nat, string list) state"
  have a0: "fa2 (failing_env 0) [weth] initial_state =
      (Inl OriginationError,
       \<lparr>world = 0, calls = [Originate Fa2Code [''tz1caller''] (Inl OriginationError)]\<rparr>)"
    by (simp add: initial_state_def failing_fa2)
  have a: "n \<noteq> 0 \<Longrightarrow> fa2 (failing_env n) [weth] initial_state = (Inr ''KT1a'', ?s1)" for n
    by (simp add: initial_state_def failing_fa2 sample_addresses)
  have b1: "deploy_quorum (failing_env 1) [(''a'', ''pkhA'')] 1 ?s1 =
      (Inl OriginationError,
       \<lparr>world = 1, calls = [Originate Fa2Code [''tz1caller''] (Inr ''KT1a''),
                            Originate QuorumCode [''a''] (Inl OriginationError)]\<rparr>)"
    by (simp add: failing_quorum)
  have b: "n \<noteq> 1 \<Longrightarrow> deploy_quorum (failing_env n) [(''a'', ''pkhA'')] 1 ?s1 = (Inr ''KT1b'', ?s2)" for n
    by (simp add: failing_quorum sample_addresses)
  have c2: "deploy_minter (failing_env 2) ''KT1b'' [weth] ''KT1a'' ?s2 =
      (Inl OriginationError,
       \<lparr>world = 2, calls = [Originate Fa2Code [''tz1caller''] (Inr ''KT1a''),
                            Originate QuorumCode [''a''] (Inr ''KT1b''),
                            Originate MinterCode [''KT1b'', ''KT1a''] (Inl OriginationError)]\<rparr>)"
    by (simp add: failing_minter minter_tokens_weth)
  have c: "deploy_minter (failing_env 3) ''KT1b'' [weth] ''KT1a'' ?s2 = (Inr ''KT1c'', ?s3)"
    by (simp add: failing_minter minter_tokens_weth sample_addresses numeral_2_eq_2)
  have d: "set_fa2_admin (failing_env 3) ''KT1c'' ''KT1a'' ?s3 = (Inl AttributeError, ?s3)"
    by (simp add: set_fa2_admin_def raises_def)
  from run_aborts_at_first_failure [where env = "failing_env 0" and toks = "[weth]"
      and ?s0.0 = initial_state and e = OriginationError and sgs = "[(''a'', ''pkhA'')]" and thr = 1
      and ?s1.0 = "\<lparr>world = 0, calls = [Originate Fa2Code [''tz1caller''] (Inl OriginationError)]\<rparr>"]
    a0
  have r0: "run (failing_env 0) [(''a'', ''pkhA'')] [weth] 1 initial_state =
     (Inl OriginationError,
      \<lparr>world = 0, calls = [Originate Fa2Code [''tz1caller''] (Inl OriginationError)]\<rparr>)"
    by blast
  from run_aborts_at_first_failure [where env = "failing_env 1" and toks = "[weth]"
      and ?s0.0 = initial_state and e = OriginationError and sgs = "[(''a'', ''pkhA'')]" and thr = 1
      and fa = "''KT1a''" and ?s1.0 = ?s1
      and ?s2.0 = "\<lparr>world = 1, calls = [Originate Fa2Code [''tz1caller''] (Inr ''KT1a''),
                            Originate QuorumCode [''a''] (Inl OriginationError)]\<rparr>"]
    a [of 1] b1
  have r1: "run (failing_env 1) [(''a'', ''pkhA'')] [weth] 1 initial_state =
     (Inl OriginationError,
      \<lparr>world = 1, calls = [Originate Fa2Code [''tz1caller''] (Inr ''KT1a''),
                            Originate QuorumCode [''a''] (Inl OriginationError)]\<rparr>)"
    by simp
  from run_aborts_at_first_failure [where env = "failing_env 2" and toks = "[weth]"
      and ?s0.0 = initial_state and e = OriginationError and sgs = "[(''a'', ''pkhA'')]" and thr = 1
      and fa = "''KT1a''" and ?s1.0 = ?s1 and q = "''KT1b''" and ?s2.0 = ?s2
      and ?s3.0 = "\<lparr>world = 2, calls = [Originate Fa2Code [''tz1caller''] (Inr ''KT1a''),
                            Originate QuorumCode [''a''] (Inr ''KT1b''),
                            Originate MinterCode [''KT1b'', ''KT1a''] (Inl OriginationError)]\<rparr>"]
    a [of 2] b [of 2] c2
  have r2: "run (failing_env 2) [(''a'', ''pkhA'')] [weth] 1 initial_state =
     (Inl OriginationError,
      \<lparr>world = 2, calls = [Originate Fa2Code [''tz1caller''] (Inr ''KT1a''),
                            Originate QuorumCode [''a''] (Inr ''KT1b''),
                            Originate MinterCode [''KT1b'', ''KT1a''] (Inl OriginationError)]\<rparr>)"
    by simp
  from run_aborts_at_first_failure [where env = "failing_env 3" and toks = "[weth]"
      and ?s0.0 = initial_state and e = AttributeError and sgs = "[(''a'', ''pkhA'')]" and thr = 1
      and fa = "''KT1a''" and ?s1.0 = ?s1 and q = "''KT1b''" and ?s2.0 = ?s2
      and mi = "''KT1c''" and ?s3.0 = ?s3 and ?s4.0 = ?s3]
    a [of 3] b [of 3] c d
  have r3: "run (failing_env 3) [(''a'', ''pkhA'')] [weth] 1 initial_state =
     (Inl AttributeError, ?s3)"
    by simp
  from r0 r1 r2 r3 show ?thesis by simp
qed

section \<open>Reading the metadata back\<close>

subsection \<open>Hexadecimal text\<close>













subsection \<open>String literals\<close>








declare scanstring.simps [simp del]














subsection \<open>Integers\<close>

















subsection \<open>White space and the first character of a value\<close>








subsection \<open>The scanner on each kind of value\<close>








declare scan_once.simps [simp del] parse_array.simps [simp del] parse_object.simps [simp del]




















text \<open>A tuple, which the encoder also accepts, is written as a JSON array and read back
  as a list.\<close>

lemma tuple_read_back_as_list:
  "metadata_encode (PyTuple [PyInt 1, PyInt 2]) =
     Inr [('''', ''74657a6f732d73746f726167653a636f6e74656e74''),
          (''content'', ''5b0a2020312c0a2020320a5d'')] \<and>
   metadata_decode [('''', ''74657a6f732d73746f726167653a636f6e74656e74''),
                    (''content'', ''5b0a2020312c0a2020320a5d'')] =
     Some (PyList [PyInt 1, PyInt 2])"
  by code_simp

end
